theory Spec2Isabelle
  imports Main "HOL-Library.AList"
begin

section \<open>Python values\<close>

text \<open>
  Webhook payloads, the records built from them, the two in-memory dictionaries of
  \<^verbatim>\<open>DataPersistence\<close> and the persisted document are all JSON-shaped Python values:
  \<^verbatim>\<open>None\<close>, booleans, integers, strings, lists and dictionaries with string keys. A
  dictionary is an association list in insertion order. Numbers with a fractional part
  are left out of the model.
\<close>

datatype json =
    JNull
  | JBool bool
  | JInt int
  | JStr string
  | JList "json list"
  | JObj "(string \<times> json) list"

text \<open>The exceptions the modelled code can meet.\<close>

datatype exn =
    AttributeError
  | TypeError
  | KeyError
  | OSError
  | NotFound
  | HTTPException
  | OtherError

text \<open>Sequencing of calls that may raise: the first exception ends the computation.\<close>

definition and_then :: "exn + 'a \<Rightarrow> ('a \<Rightarrow> exn + 'b) \<Rightarrow> exn + 'b" where
  "and_then r f = (case r of Inl e \<Rightarrow> Inl e | Inr x \<Rightarrow> f x)"

text \<open>\<^verbatim>\<open>d.get(k, default)\<close>: only a dictionary has the method.\<close>

fun py_get :: "json \<Rightarrow> string \<Rightarrow> json \<Rightarrow> exn + json" where
  "py_get (JObj kvs) k dflt = Inr (case map_of kvs k of None \<Rightarrow> dflt | Some v \<Rightarrow> v)"
| "py_get _ k dflt = Inl AttributeError"

text \<open>\<^verbatim>\<open>d.get(k1, {}).get(k2, default)\<close>.\<close>

definition py_get2 :: "json \<Rightarrow> string \<Rightarrow> string \<Rightarrow> json \<Rightarrow> exn + json" where
  "py_get2 d k1 k2 dflt = and_then (py_get d k1 (JObj [])) (\<lambda>x. py_get x k2 dflt)"

text \<open>\<^verbatim>\<open>d[k] = v\<close>: an existing key keeps its place, a new one is appended.\<close>

fun py_setitem :: "json \<Rightarrow> string \<Rightarrow> json \<Rightarrow> exn + json" where
  "py_setitem (JObj kvs) k v = Inr (JObj (AList.update k v kvs))"
| "py_setitem _ k v = Inl TypeError"

fun is_infix :: "string \<Rightarrow> string \<Rightarrow> bool" where
  "is_infix xs [] = (xs = [])"
| "is_infix xs (y # ys) = (take (length xs) (y # ys) = xs \<or> is_infix xs ys)"

text \<open>
  \<^verbatim>\<open>k in d\<close> for a string \<open>k\<close>: key membership in a dictionary, element membership in a
  list, substring test in a string, \<^verbatim>\<open>TypeError\<close> otherwise.
\<close>

fun py_contains :: "string \<Rightarrow> json \<Rightarrow> exn + bool" where
  "py_contains k (JObj kvs) = Inr (map_of kvs k \<noteq> None)"
| "py_contains k (JList xs) = Inr (JStr k \<in> set xs)"
| "py_contains k (JStr s) = Inr (is_infix k s)"
| "py_contains k _ = Inl TypeError"

text \<open>\<^verbatim>\<open>d[k]\<close> for a string \<open>k\<close>.\<close>

fun py_getitem :: "json \<Rightarrow> string \<Rightarrow> exn + json" where
  "py_getitem (JObj kvs) k = (case map_of kvs k of None \<Rightarrow> Inl KeyError | Some v \<Rightarrow> Inr v)"
| "py_getitem _ k = Inl TypeError"

text \<open>Truth value testing, as \<^verbatim>\<open>if x\<close> and \<^verbatim>\<open>not x\<close> do it.\<close>

fun truthy :: "json \<Rightarrow> bool" where
  "truthy JNull = False"
| "truthy (JBool b) = b"
| "truthy (JInt n) = (n \<noteq> 0)"
| "truthy (JStr s) = (s \<noteq> [])"
| "truthy (JList xs) = (xs \<noteq> [])"
| "truthy (JObj kvs) = (kvs \<noteq> [])"


text \<open>A Python dictionary never holds a key twice, at any depth.\<close>

fun is_py_value :: "json \<Rightarrow> bool" where
  "is_py_value (JList xs) = list_all is_py_value xs"
| "is_py_value (JObj kvs) = (distinct (map fst kvs) \<and> list_all (\<lambda>kv. is_py_value (snd kv)) kvs)"
| "is_py_value _ = True"

section \<open>The persisted document\<close>

text \<open>
  \<^verbatim>\<open>json.dump\<close> writes the syntax tree of the value it is given; \<^verbatim>\<open>json.load\<close> builds
  Python values from a syntax tree, filling each dictionary member by member, so that a
  later member with the same name replaces the value of an earlier one.
\<close>

fun json_load :: "json \<Rightarrow> json" where
  "json_load (JList xs) = JList (map json_load xs)"
| "json_load (JObj kvs) =
     JObj (foldl (\<lambda>d kv. AList.update (fst kv) (snd kv) d) []
             (map (\<lambda>kv. (fst kv, json_load (snd kv))) kvs))"
| "json_load v = v"

text \<open>
  The file at \<^verbatim>\<open>file_path\<close>: absent, text that is not JSON, or the text of a JSON
  syntax tree. A write either succeeds, or fails when the file is opened (the old
  content stays), or fails while the document is written (a truncated document stays,
  which is not JSON).
\<close>

datatype file_content = Absent | Malformed | Document json

datatype media = Writable | OpenFails | WriteFails

text \<open>
  The state of the process: the two dictionaries of \<^verbatim>\<open>DataPersistence\<close>, the file and
  how the next write to it goes, and the coroutines \<^verbatim>\<open>send_or_edit(key, handler_name)\<close>
  submitted to the bot's event loop with \<^verbatim>\<open>asyncio.run_coroutine_threadsafe\<close>.
\<close>

record system =
  DATA_STORE :: json
  MESSAGE_MAP :: json
  disk :: file_content
  media :: media
  loop :: "(string \<times> string) list"

text \<open>
  A method of the store returns the exception that escapes it, if any, with the state
  it leaves behind.
\<close>

definition save_data :: "system \<Rightarrow> exn option \<times> system" where
  "save_data s =
     (case media s of
        Writable \<Rightarrow>
          (None, s\<lparr>disk := Document (JObj [(''DATA_STORE'', DATA_STORE s),
                                            (''MESSAGE_MAP'', MESSAGE_MAP s)])\<rparr>)
      | OpenFails \<Rightarrow> (Some OSError, s)
      | WriteFails \<Rightarrow> (Some OSError, s\<lparr>disk := Malformed\<rparr>))"

definition load_data :: "system \<Rightarrow> exn option \<times> system" where
  "load_data s =
     (case disk s of
        Absent \<Rightarrow> save_data (s\<lparr>DATA_STORE := JObj [], MESSAGE_MAP := JObj []\<rparr>)
      | Malformed \<Rightarrow> save_data (s\<lparr>DATA_STORE := JObj [], MESSAGE_MAP := JObj []\<rparr>)
      | Document t \<Rightarrow>
          (let data = json_load t in
           case py_get data ''DATA_STORE'' (JObj []) of
             Inl e \<Rightarrow> (Some e, s)
           | Inr ds \<Rightarrow>
               (case py_get data ''MESSAGE_MAP'' (JObj []) of
                  Inl e \<Rightarrow> (Some e, s\<lparr>DATA_STORE := ds\<rparr>)
                | Inr mm \<Rightarrow> (None, s\<lparr>DATA_STORE := ds, MESSAGE_MAP := mm\<rparr>))))"

definition get_data_store :: "system \<Rightarrow> json" where
  "get_data_store s = DATA_STORE s"

definition get_message_map :: "system \<Rightarrow> json" where
  "get_message_map s = MESSAGE_MAP s"

definition update_data_store :: "string \<Rightarrow> json \<Rightarrow> system \<Rightarrow> exn option \<times> system" where
  "update_data_store key v s =
     (case py_setitem (DATA_STORE s) key v of
        Inl e \<Rightarrow> (Some e, s)
      | Inr d \<Rightarrow> save_data (s\<lparr>DATA_STORE := d\<rparr>))"

definition update_message_map :: "string \<Rightarrow> json \<Rightarrow> system \<Rightarrow> exn option \<times> system" where
  "update_message_map key message_id s =
     (case py_setitem (MESSAGE_MAP s) key message_id of
        Inl e \<Rightarrow> (Some e, s)
      | Inr m \<Rightarrow> save_data (s\<lparr>MESSAGE_MAP := m\<rparr>))"

text \<open>A fresh \<^verbatim>\<open>DataPersistence\<close> object, as \<^verbatim>\<open>main\<close> creates it at start-up.\<close>

definition init :: "file_content \<Rightarrow> media \<Rightarrow> system" where
  "init f m = \<lparr>DATA_STORE = JObj [], MESSAGE_MAP = JObj [], disk = f, media = m, loop = []\<rparr>"

section \<open>Formatting values into keys\<close>

text \<open>
  \<^verbatim>\<open>str(x)\<close> and the interpolation \<^verbatim>\<open>f"{x}"\<close>: a string is taken as it is, every other
  value is printed as \<^verbatim>\<open>repr\<close> prints it. Characters are read as code points below 256.
\<close>

definition digit_char :: "nat \<Rightarrow> char" where
  "digit_char n = ''0123456789abcdef'' ! n"

fun str_nat :: "nat \<Rightarrow> string" where
  "str_nat n = (if n < 10 then [digit_char n] else str_nat (n div 10) @ [digit_char (n mod 10)])"

declare str_nat.simps [simp del]

definition str_int :: "int \<Rightarrow> string" where
  "str_int i = (if i < 0 then CHR ''-'' # str_nat (nat (- i)) else str_nat (nat i))"

definition printable :: "char \<Rightarrow> bool" where
  "printable c = (let n = (of_char c :: nat) in (32 \<le> n \<and> n < 127) \<or> (160 < n \<and> n \<noteq> 173))"

definition repr_char :: "char \<Rightarrow> char \<Rightarrow> string" where
  "repr_char q c =
     (if c = q \<or> c = CHR 0x5C then [CHR 0x5C, c]
      else if c = CHR 0x09 then [CHR 0x5C, CHR ''t'']
      else if c = CHR 0x0A then [CHR 0x5C, CHR ''n'']
      else if c = CHR 0x0D then [CHR 0x5C, CHR ''r'']
      else if printable c then [c]
      else [CHR 0x5C, CHR ''x'', digit_char (of_char c div 16), digit_char (of_char c mod 16)])"

definition repr_str :: "string \<Rightarrow> string" where
  "repr_str s =
     (let q = (if CHR 0x27 \<in> set s \<and> CHR 0x22 \<notin> set s then CHR 0x22 else CHR 0x27)
      in q # concat (map (repr_char q) s) @ [q])"

fun join :: "string \<Rightarrow> string list \<Rightarrow> string" where
  "join sep [] = []"
| "join sep [x] = x"
| "join sep (x # y # ys) = x @ sep @ join sep (y # ys)"

fun py_repr :: "json \<Rightarrow> string" where
  "py_repr JNull = ''None''"
| "py_repr (JBool b) = (if b then ''True'' else ''False'')"
| "py_repr (JInt i) = str_int i"
| "py_repr (JStr s) = repr_str s"
| "py_repr (JList xs) = ''['' @ join '', '' (map py_repr xs) @ '']''"
| "py_repr (JObj kvs) =
     ''{'' @ join '', '' (map (\<lambda>kv. repr_str (fst kv) @ '': '' @ py_repr (snd kv)) kvs) @ ''}''"

definition py_str :: "json \<Rightarrow> string" where
  "py_str v = (case v of JStr s \<Rightarrow> s | _ \<Rightarrow> py_repr v)"

section \<open>The Discord bot: \<open>send_or_edit\<close>\<close>

text \<open>
  What the Discord side answers during one run of \<^verbatim>\<open>send_or_edit\<close>: whether
  \<^verbatim>\<open>build_embed\<close> raises on the stored record, whether \<^verbatim>\<open>bot.get_channel\<close> finds the
  channel, the exception (if any) of \<^verbatim>\<open>channel.fetch_message\<close> and of \<^verbatim>\<open>old_msg.edit\<close>,
  and the exception of \<^verbatim>\<open>channel.send\<close> or the id of the message it creates. A run
  makes each of these calls at most once. \<^verbatim>\<open>DEFAULT_DISCORD_CHANNEL_ID\<close> is the value of
  the configuration.
\<close>

record discord =
  DEFAULT_DISCORD_CHANNEL_ID :: int
  build_embed :: "exn option"
  get_channel :: bool
  fetch_message :: "exn option"
  edit :: "exn option"
  send :: "exn + int"

text \<open>The calls a run makes, in order, and how the run ends.\<close>

datatype call =
    BuildEmbed string json string
  | GetChannel json
  | FetchMessage json
  | EditMessage json
  | SendMessage json

datatype ending = Returned | Caught exn | Raised exn

text \<open>
  \<^verbatim>\<open>new_msg = await channel.send(embed=embed)\<close> followed by
  \<^verbatim>\<open>update_message_map(key, new_msg.id)\<close>, inside the outer \<^verbatim>\<open>try\<close>: an exception of
  either is caught and logged.
\<close>

definition send_new :: "discord \<Rightarrow> json \<Rightarrow> string \<Rightarrow> system \<Rightarrow> call list \<times> ending \<times> system" where
  "send_new d channel_id key s =
     (case send d of
        Inl e \<Rightarrow> ([SendMessage channel_id], Caught e, s)
      | Inr new_id \<Rightarrow>
          (case update_message_map key (JInt new_id) s of
             (Some e, s') \<Rightarrow> ([SendMessage channel_id], Caught e, s')
           | (None, s') \<Rightarrow> ([SendMessage channel_id], Returned, s')))"

text \<open>The \<^verbatim>\<open>try\<close> block of \<^verbatim>\<open>send_or_edit\<close>.\<close>

definition sync_message :: "discord \<Rightarrow> json \<Rightarrow> string \<Rightarrow> system \<Rightarrow> call list \<times> ending \<times> system" where
  "sync_message d channel_id key s =
     (let message_map = get_message_map s in
      case py_contains key message_map of
        Inl e \<Rightarrow> ([], Caught e, s)
      | Inr False \<Rightarrow> send_new d channel_id key s
      | Inr True \<Rightarrow>
          (case py_getitem message_map key of
             Inl e \<Rightarrow> ([], Caught e, s)
           | Inr message_id \<Rightarrow>
               (case fetch_message d of
                  Some e \<Rightarrow>
                    (if e = NotFound then
                       (case send_new d channel_id key s of
                          (cs, r, s') \<Rightarrow> (FetchMessage message_id # cs, r, s'))
                     else ([FetchMessage message_id], Caught e, s))
                | None \<Rightarrow>
                    (case edit d of
                       Some e \<Rightarrow>
                         (if e = NotFound then
                            (case send_new d channel_id key s of
                               (cs, r, s') \<Rightarrow>
                                 (FetchMessage message_id # EditMessage message_id # cs, r, s'))
                          else ([FetchMessage message_id, EditMessage message_id], Caught e, s))
                     | None \<Rightarrow>
                         ([FetchMessage message_id, EditMessage message_id], Returned, s)))))"

text \<open>\<^verbatim>\<open>key.split(':')[0]\<close>: the part of the key before its first colon.\<close>

definition handler_of :: "string \<Rightarrow> string" where
  "handler_of key = takeWhile (\<lambda>c. c \<noteq> CHR '':'') key"

definition send_or_edit :: "discord \<Rightarrow> string \<Rightarrow> string \<Rightarrow> system \<Rightarrow> call list \<times> ending \<times> system" where
  "send_or_edit d key handler_name s =
     (let handler = handler_of key in
      case py_get (get_data_store s) ''handlers'' (JObj []) of
        Inl e \<Rightarrow> ([], Raised e, s)
      | Inr handlers \<Rightarrow>
      (case py_get handlers handler (JObj []) of
        Inl e \<Rightarrow> ([], Raised e, s)
      | Inr handler_config \<Rightarrow>
      (case py_get handler_config ''enabled'' (JBool False) of
        Inl e \<Rightarrow> ([], Raised e, s)
      | Inr enabled \<Rightarrow>
      if \<not> truthy enabled then ([], Returned, s)
      else
      (case py_get (get_data_store s) key (JObj []) of
        Inl e \<Rightarrow> ([], Raised e, s)
      | Inr data \<Rightarrow>
      (case build_embed d of
        Some e \<Rightarrow> ([BuildEmbed key data handler_name], Raised e, s)
      | None \<Rightarrow>
      (case py_get handler_config ''channel_id'' (JInt (DEFAULT_DISCORD_CHANNEL_ID d)) of
        Inl e \<Rightarrow> ([BuildEmbed key data handler_name], Raised e, s)
      | Inr channel_id \<Rightarrow>
      if \<not> get_channel d
      then ([BuildEmbed key data handler_name, GetChannel channel_id], Returned, s)
      else
      (case sync_message d channel_id key s of
         (cs, r, s') \<Rightarrow>
           (BuildEmbed key data handler_name # GetChannel channel_id # cs, r, s'))))))))"

subsection \<open>The coroutine, from one \<^verbatim>\<open>await\<close> to the next\<close>




section \<open>The GitHub handlers\<close>

text \<open>
  Every handler reads its fields from the payload with \<^verbatim>\<open>.get\<close>, builds the key and
  the record, and ends with the same two statements:
  \<^verbatim>\<open>self.data_persistence.update_data_store(key, data)\<close> and
  \<^verbatim>\<open>asyncio.run_coroutine_threadsafe(self.discord_bot.send_or_edit(key, handler_name=...), loop)\<close>.
  An exception of the first leaves the handler before the second.
\<close>

definition store_and_sync :: "string \<Rightarrow> json \<Rightarrow> string \<Rightarrow> system \<Rightarrow> exn option \<times> system" where
  "store_and_sync key data handler_name s =
     (case update_data_store key data s of
        (Some e, s') \<Rightarrow> (Some e, s')
      | (None, s') \<Rightarrow> (None, s'\<lparr>loop := loop s' @ [(key, handler_name)]\<rparr>))"

text \<open>
  For each handler, \<open>_entry\<close> is the part before these two statements: the key and the
  record, or the exception of a \<^verbatim>\<open>.get\<close> on a value that is not a dictionary.
\<close>

text \<open>\<^verbatim>\<open>for commit in commits\<close>: what the loop iterates over.\<close>

fun py_iter :: "json \<Rightarrow> exn + json list" where
  "py_iter (JList xs) = Inr xs"
| "py_iter (JObj kvs) = Inr (map (\<lambda>kv. JStr (fst kv)) kvs)"
| "py_iter (JStr s) = Inr (map (\<lambda>c. JStr [c]) s)"
| "py_iter _ = Inl TypeError"

definition push_entry :: "json \<Rightarrow> json \<Rightarrow> exn + string \<times> json" where
  "push_entry repo_full_name commit =
     and_then (py_get commit ''id'' (JStr [])) (\<lambda>sha.
     and_then (py_get commit ''message'' (JStr [])) (\<lambda>message.
     and_then (py_get commit ''url'' (JStr ''#'')) (\<lambda>url.
     Inr (''push:'' @ py_str sha,
          JObj [(''message'', message), (''url'', url), (''repo_full_name'', repo_full_name)]))))"

fun push_commits :: "json \<Rightarrow> json list \<Rightarrow> system \<Rightarrow> exn option \<times> system" where
  "push_commits repo_full_name [] s = (None, s)"
| "push_commits repo_full_name (commit # commits) s =
     (case push_entry repo_full_name commit of
        Inl e \<Rightarrow> (Some e, s)
      | Inr (key, data) \<Rightarrow>
          (case store_and_sync key data ''push'' s of
             (Some e, s') \<Rightarrow> (Some e, s')
           | (None, s') \<Rightarrow> push_commits repo_full_name commits s'))"

definition handle_push :: "json \<Rightarrow> system \<Rightarrow> exn option \<times> system" where
  "handle_push payload s =
     (case and_then (py_get payload ''commits'' (JList [])) (\<lambda>commits.
           and_then (py_get payload ''repository'' (JObj [])) (\<lambda>repo.
           and_then (py_get repo ''full_name'' (JStr ''unknown/unknown'')) (\<lambda>repo_full_name.
           and_then (py_iter commits) (\<lambda>cs. Inr (repo_full_name, cs))))) of
        Inl e \<Rightarrow> (Some e, s)
      | Inr (repo_full_name, cs) \<Rightarrow> push_commits repo_full_name cs s)"

definition check_run_entry :: "json \<Rightarrow> exn + string \<times> json" where
  "check_run_entry payload =
     and_then (py_get payload ''check_run'' (JObj [])) (\<lambda>check_run.
     and_then (py_get check_run ''id'' (JStr ''unknown'')) (\<lambda>run_id.
     and_then (py_get check_run ''name'' (JStr ''Unnamed Check'')) (\<lambda>name.
     and_then (py_get check_run ''html_url'' (JStr ''#'')) (\<lambda>url.
     and_then (py_get check_run ''status'' (JStr ''unknown'')) (\<lambda>status.
     and_then (py_get check_run ''conclusion'' (JStr ''unknown'')) (\<lambda>conclusion.
     and_then (py_get check_run ''head_sha'' (JStr ''unknown'')) (\<lambda>head_sha.
     and_then (py_get2 payload ''repository'' ''full_name'' (JStr ''unknown/unknown'')) (\<lambda>repo_full_name.
     Inr (''check_run:'' @ py_str run_id,
          JObj [(''name'', name), (''url'', url), (''status'', status), (''conclusion'', conclusion), (''head_sha'', head_sha), (''repo_full_name'', repo_full_name)])))))))))"

definition handle_check_run :: "json \<Rightarrow> system \<Rightarrow> exn option \<times> system" where
  "handle_check_run payload s =
     (case check_run_entry payload of
        Inl e \<Rightarrow> (Some e, s)
      | Inr (key, data) \<Rightarrow> store_and_sync key data ''check_run'' s)"

definition check_suite_entry :: "json \<Rightarrow> exn + string \<times> json" where
  "check_suite_entry payload =
     and_then (py_get payload ''check_suite'' (JObj [])) (\<lambda>check_suite.
     and_then (py_get check_suite ''id'' (JStr ''unknown'')) (\<lambda>suite_id.
     and_then (py_get check_suite ''name'' (JStr ''Unnamed Check Suite'')) (\<lambda>name.
     and_then (py_get check_suite ''html_url'' (JStr ''#'')) (\<lambda>url.
     and_then (py_get check_suite ''status'' (JStr ''unknown'')) (\<lambda>status.
     and_then (py_get check_suite ''conclusion'' (JStr ''unknown'')) (\<lambda>conclusion.
     and_then (py_get check_suite ''head_sha'' (JStr ''unknown'')) (\<lambda>head_sha.
     and_then (py_get2 check_suite ''repository'' ''full_name'' (JStr ''unknown/unknown'')) (\<lambda>repo_full_name.
     Inr (''check_suite:'' @ py_str suite_id,
          JObj [(''name'', name), (''url'', url), (''status'', status), (''conclusion'', conclusion), (''head_sha'', head_sha), (''repo_full_name'', repo_full_name)])))))))))"

definition handle_check_suite :: "json \<Rightarrow> system \<Rightarrow> exn option \<times> system" where
  "handle_check_suite payload s =
     (case check_suite_entry payload of
        Inl e \<Rightarrow> (Some e, s)
      | Inr (key, data) \<Rightarrow> store_and_sync key data ''check_suite'' s)"

definition workflow_run_entry :: "json \<Rightarrow> json \<Rightarrow> exn + string \<times> json" where
  "workflow_run_entry payload workflow_run =
     and_then (py_get workflow_run ''id'' (JStr ''unknown'')) (\<lambda>run_id.
     and_then (py_get workflow_run ''name'' (JStr ''Unnamed Workflow'')) (\<lambda>name.
     and_then (py_get workflow_run ''status'' (JStr ''unknown'')) (\<lambda>status.
     and_then (py_get workflow_run ''conclusion'' (JStr ''unknown'')) (\<lambda>conclusion.
     and_then (py_get workflow_run ''html_url'' (JStr ''#'')) (\<lambda>url.
     and_then (py_get workflow_run ''started_at'' (JStr [])) (\<lambda>started_at.
     and_then (py_get workflow_run ''completed_at'' (JStr [])) (\<lambda>completed_at.
     and_then (py_get workflow_run ''head_sha'' (JStr ''unknown'')) (\<lambda>head_sha.
     and_then (py_get2 workflow_run ''repository'' ''full_name'' (JStr ''unknown/unknown'')) (\<lambda>repo_full_name.
     Inr (''workflow_run:'' @ py_str run_id,
          JObj [(''name'', name), (''status'', status), (''conclusion'', conclusion), (''url'', url), (''started_at'', started_at), (''completed_at'', completed_at), (''head_sha'', head_sha), (''repo_full_name'', repo_full_name)]))))))))))"

definition handle_workflow_run :: "json \<Rightarrow> system \<Rightarrow> exn option \<times> system" where
  "handle_workflow_run payload s =
     (case and_then (py_get payload ''workflow_run'' (JObj [])) (\<lambda>workflow_run.
           and_then (py_get payload ''action'' (JStr [])) (\<lambda>action.
           Inr (workflow_run, action))) of
        Inl e \<Rightarrow> (Some e, s)
      | Inr (workflow_run, action) \<Rightarrow>
          if action \<noteq> JStr ''completed'' then (None, s)
          else
            (case workflow_run_entry payload workflow_run of
               Inl e \<Rightarrow> (Some e, s)
             | Inr (key, data) \<Rightarrow> store_and_sync key data ''workflow_run'' s))"

definition workflow_job_entry :: "json \<Rightarrow> exn + string \<times> json" where
  "workflow_job_entry payload =
     and_then (py_get payload ''workflow_job'' (JObj [])) (\<lambda>workflow_job.
     and_then (py_get workflow_job ''id'' (JStr ''unknown'')) (\<lambda>job_id.
     and_then (py_get workflow_job ''name'' (JStr ''Unnamed Workflow Job'')) (\<lambda>name.
     and_then (py_get workflow_job ''html_url'' (JStr ''#'')) (\<lambda>url.
     and_then (py_get workflow_job ''status'' (JStr ''unknown'')) (\<lambda>status.
     and_then (py_get workflow_job ''conclusion'' (JStr ''unknown'')) (\<lambda>conclusion.
     and_then (py_get workflow_job ''head_sha'' (JStr ''unknown'')) (\<lambda>head_sha.
     and_then (py_get2 workflow_job ''repository'' ''full_name'' (JStr ''unknown/unknown'')) (\<lambda>repo_full_name.
     Inr (''workflow_job:'' @ py_str job_id,
          JObj [(''name'', name), (''url'', url), (''status'', status), (''conclusion'', conclusion), (''head_sha'', head_sha), (''repo_full_name'', repo_full_name)])))))))))"

definition handle_workflow_job :: "json \<Rightarrow> system \<Rightarrow> exn option \<times> system" where
  "handle_workflow_job payload s =
     (case workflow_job_entry payload of
        Inl e \<Rightarrow> (Some e, s)
      | Inr (key, data) \<Rightarrow> store_and_sync key data ''workflow_job'' s)"

definition pull_request_entry :: "json \<Rightarrow> exn + string \<times> json" where
  "pull_request_entry payload =
     and_then (py_get payload ''pull_request'' (JObj [])) (\<lambda>pr.
     and_then (py_get payload ''action'' (JStr ''unknown'')) (\<lambda>action.
     and_then (py_get pr ''number'' (JInt 0)) (\<lambda>pr_number.
     and_then (py_get pr ''title'' (JStr [])) (\<lambda>title.
     and_then (py_get pr ''html_url'' (JStr ''#'')) (\<lambda>url.
     and_then (py_get pr ''merged'' (JBool False)) (\<lambda>merged.
     and_then (py_get2 payload ''repository'' ''full_name'' (JStr ''unknown/unknown'')) (\<lambda>repo_full_name.
     Inr (''pull_request:'' @ py_str pr_number,
          JObj [(''title'', title), (''url'', url), (''action'', action), (''merged'', merged), (''repo_full_name'', repo_full_name)]))))))))"

definition handle_pull_request :: "json \<Rightarrow> system \<Rightarrow> exn option \<times> system" where
  "handle_pull_request payload s =
     (case pull_request_entry payload of
        Inl e \<Rightarrow> (Some e, s)
      | Inr (key, data) \<Rightarrow> store_and_sync key data ''pull_request'' s)"

definition pull_request_review_entry :: "json \<Rightarrow> exn + string \<times> json" where
  "pull_request_review_entry payload =
     and_then (py_get payload ''review'' (JObj [])) (\<lambda>review.
     and_then (py_get payload ''pull_request'' (JObj [])) (\<lambda>pr.
     and_then (py_get pr ''number'' (JInt 0)) (\<lambda>pr_number.
     and_then (py_get2 review ''user'' ''login'' (JStr ''unknown'')) (\<lambda>reviewer.
     and_then (py_get review ''html_url'' (JStr ''#'')) (\<lambda>url.
     and_then (py_get review ''state'' (JStr ''commented'')) (\<lambda>action.
     and_then (py_get review ''body'' (JStr [])) (\<lambda>body.
     and_then (py_get2 payload ''repository'' ''full_name'' (JStr ''unknown/unknown'')) (\<lambda>repo_full_name.
     Inr (''pull_request_review:'' @ py_str pr_number @ '':'' @ py_str reviewer @ '':'' @ py_str url,
          JObj [(''user'', reviewer), (''url'', url), (''action'', action), (''body'', body), (''repo_full_name'', repo_full_name)])))))))))"

definition handle_pull_request_review :: "json \<Rightarrow> system \<Rightarrow> exn option \<times> system" where
  "handle_pull_request_review payload s =
     (case pull_request_review_entry payload of
        Inl e \<Rightarrow> (Some e, s)
      | Inr (key, data) \<Rightarrow> store_and_sync key data ''pull_request_review'' s)"

definition pull_request_review_comment_entry :: "json \<Rightarrow> exn + string \<times> json" where
  "pull_request_review_comment_entry payload =
     and_then (py_get payload ''comment'' (JObj [])) (\<lambda>comment.
     and_then (py_get payload ''pull_request'' (JObj [])) (\<lambda>pr.
     and_then (py_get pr ''number'' (JInt 0)) (\<lambda>pr_number.
     and_then (py_get2 comment ''user'' ''login'' (JStr ''unknown'')) (\<lambda>commenter.
     and_then (py_get comment ''html_url'' (JStr ''#'')) (\<lambda>comment_url.
     and_then (py_get comment ''body'' (JStr [])) (\<lambda>body.
     and_then (py_get2 payload ''repository'' ''full_name'' (JStr ''unknown/unknown'')) (\<lambda>repo_full_name.
     Inr (''pull_request_review_comment:'' @ py_str pr_number @ '':'' @ py_str commenter @ '':'' @ py_str comment_url,
          JObj [(''user'', commenter), (''url'', comment_url), (''body'', body), (''repo_full_name'', repo_full_name)]))))))))"

definition handle_pull_request_review_comment :: "json \<Rightarrow> system \<Rightarrow> exn option \<times> system" where
  "handle_pull_request_review_comment payload s =
     (case pull_request_review_comment_entry payload of
        Inl e \<Rightarrow> (Some e, s)
      | Inr (key, data) \<Rightarrow> store_and_sync key data ''pull_request_review_comment'' s)"

definition issues_entry :: "json \<Rightarrow> exn + string \<times> json" where
  "issues_entry payload =
     and_then (py_get payload ''issue'' (JObj [])) (\<lambda>issue.
     and_then (py_get payload ''action'' (JStr ''unknown'')) (\<lambda>action.
     and_then (py_get issue ''number'' (JInt 0)) (\<lambda>issue_number.
     and_then (py_get issue ''title'' (JStr [])) (\<lambda>title.
     and_then (py_get issue ''html_url'' (JStr ''#'')) (\<lambda>url.
     and_then (py_get2 payload ''repository'' ''full_name'' (JStr ''unknown/unknown'')) (\<lambda>repo_full_name.
     Inr (''issue:'' @ py_str issue_number @ '':'' @ py_str action,
          JObj [(''title'', title), (''url'', url), (''action'', action), (''repo_full_name'', repo_full_name)])))))))"

definition handle_issues :: "json \<Rightarrow> system \<Rightarrow> exn option \<times> system" where
  "handle_issues payload s =
     (case issues_entry payload of
        Inl e \<Rightarrow> (Some e, s)
      | Inr (key, data) \<Rightarrow> store_and_sync key data ''issues'' s)"

definition issue_comment_entry :: "json \<Rightarrow> exn + string \<times> json" where
  "issue_comment_entry payload =
     and_then (py_get payload ''comment'' (JObj [])) (\<lambda>comment.
     and_then (py_get payload ''issue'' (JObj [])) (\<lambda>issue.
     and_then (py_get issue ''number'' (JInt 0)) (\<lambda>issue_number.
     and_then (py_get2 comment ''user'' ''login'' (JStr ''unknown'')) (\<lambda>commenter.
     and_then (py_get comment ''html_url'' (JStr ''#'')) (\<lambda>comment_url.
     and_then (py_get comment ''body'' (JStr [])) (\<lambda>body.
     and_then (py_get2 payload ''repository'' ''full_name'' (JStr ''unknown/unknown'')) (\<lambda>repo_full_name.
     Inr (''issue_comment:'' @ py_str issue_number @ '':'' @ py_str commenter @ '':'' @ py_str comment_url,
          JObj [(''user'', commenter), (''url'', comment_url), (''body'', body), (''repo_full_name'', repo_full_name)]))))))))"

definition handle_issue_comment :: "json \<Rightarrow> system \<Rightarrow> exn option \<times> system" where
  "handle_issue_comment payload s =
     (case issue_comment_entry payload of
        Inl e \<Rightarrow> (Some e, s)
      | Inr (key, data) \<Rightarrow> store_and_sync key data ''issue_comment'' s)"

text \<open>The link that \<^verbatim>\<open>handle_create\<close> and \<^verbatim>\<open>handle_delete\<close> store under \<^verbatim>\<open>ref_url\<close>.\<close>

definition ref_url :: "json \<Rightarrow> json \<Rightarrow> json \<Rightarrow> json" where
  "ref_url ref_type repo_full_name ref =
     (if ref_type = JStr ''branch''
      then JStr (''https://github.com/'' @ py_str repo_full_name @ ''/tree/'' @ py_str ref)
      else if ref_type = JStr ''tag''
      then JStr (''https://github.com/'' @ py_str repo_full_name @ ''/releases/tag/'' @ py_str ref)
      else JStr [])"

definition create_entry :: "json \<Rightarrow> exn + string \<times> json" where
  "create_entry payload =
     and_then (py_get payload ''ref_type'' (JStr ''unknown'')) (\<lambda>ref_type.
     and_then (py_get payload ''ref'' (JStr ''unknown'')) (\<lambda>ref.
     and_then (py_get payload ''sender'' (JObj [])) (\<lambda>sender_info.
     and_then (if truthy sender_info then py_get sender_info ''login'' JNull else py_get payload ''user'' (JStr ''unknown'')) (\<lambda>sender.
     and_then (py_get2 payload ''repository'' ''full_name'' (JStr ''unknown/unknown'')) (\<lambda>repo_full_name.
     Inr (''create:'' @ py_str ref,
          JObj [(''ref_type'', ref_type), (''ref'', ref), (''user'', sender), (''ref_url'', ref_url ref_type repo_full_name ref), (''repo_full_name'', repo_full_name)]))))))"

definition handle_create :: "json \<Rightarrow> system \<Rightarrow> exn option \<times> system" where
  "handle_create payload s =
     (case create_entry payload of
        Inl e \<Rightarrow> (Some e, s)
      | Inr (key, data) \<Rightarrow> store_and_sync key data ''create'' s)"

definition delete_entry :: "json \<Rightarrow> exn + string \<times> json" where
  "delete_entry payload =
     and_then (py_get payload ''ref_type'' (JStr ''unknown'')) (\<lambda>ref_type.
     and_then (py_get payload ''ref'' (JStr ''unknown'')) (\<lambda>ref.
     and_then (py_get payload ''sender'' (JObj [])) (\<lambda>sender_info.
     and_then (if truthy sender_info then py_get sender_info ''login'' JNull else py_get payload ''user'' (JStr ''unknown'')) (\<lambda>sender.
     and_then (py_get2 payload ''repository'' ''full_name'' (JStr ''unknown/unknown'')) (\<lambda>repo_full_name.
     Inr (''delete:'' @ py_str ref,
          JObj [(''ref_type'', ref_type), (''ref'', ref), (''user'', sender), (''ref_url'', ref_url ref_type repo_full_name ref), (''repo_full_name'', repo_full_name)]))))))"

definition handle_delete :: "json \<Rightarrow> system \<Rightarrow> exn option \<times> system" where
  "handle_delete payload s =
     (case delete_entry payload of
        Inl e \<Rightarrow> (Some e, s)
      | Inr (key, data) \<Rightarrow> store_and_sync key data ''delete'' s)"

definition fork_entry :: "json \<Rightarrow> exn + string \<times> json" where
  "fork_entry payload =
     and_then (py_get2 payload ''sender'' ''login'' (JStr ''unknown'')) (\<lambda>sender.
     and_then (py_get payload ''repository'' (JObj [])) (\<lambda>repository.
     and_then (py_get repository ''full_name'' (JStr ''unknown/unknown'')) (\<lambda>repo_full_name.
     and_then (py_get payload ''forkee'' (JObj [])) (\<lambda>forkee.
     and_then (py_get forkee ''full_name'' (JStr ''unknown'')) (\<lambda>forkee_name.
     and_then (py_get forkee ''html_url'' (JStr ''#'')) (\<lambda>forkee_url.
     Inr (''fork:'' @ py_str forkee_name,
          JObj [(''sender'', sender), (''repo_name'', repo_full_name), (''forkee_name'', forkee_name), (''forkee_url'', forkee_url), (''repo_full_name'', repo_full_name)])))))))"

definition handle_fork :: "json \<Rightarrow> system \<Rightarrow> exn option \<times> system" where
  "handle_fork payload s =
     (case fork_entry payload of
        Inl e \<Rightarrow> (Some e, s)
      | Inr (key, data) \<Rightarrow> store_and_sync key data ''fork'' s)"

definition release_entry :: "json \<Rightarrow> exn + string \<times> json" where
  "release_entry payload =
     and_then (py_get payload ''release'' (JObj [])) (\<lambda>release.
     and_then (py_get payload ''action'' (JStr ''unknown'')) (\<lambda>action.
     and_then (py_get release ''name'' (JStr ''No Name'')) (\<lambda>name.
     and_then (py_get release ''html_url'' (JStr ''#'')) (\<lambda>url.
     and_then (py_get2 payload ''sender'' ''login'' (JStr ''unknown'')) (\<lambda>publisher.
     and_then (py_get2 payload ''repository'' ''full_name'' (JStr ''unknown/unknown'')) (\<lambda>repo_full_name.
     Inr (''release:'' @ py_str name,
          JObj [(''action'', action), (''name'', name), (''url'', url), (''publisher'', publisher), (''repo_full_name'', repo_full_name)])))))))"

definition handle_release :: "json \<Rightarrow> system \<Rightarrow> exn option \<times> system" where
  "handle_release payload s =
     (case release_entry payload of
        Inl e \<Rightarrow> (Some e, s)
      | Inr (key, data) \<Rightarrow> store_and_sync key data ''release'' s)"

definition repository_entry :: "json \<Rightarrow> exn + string \<times> json" where
  "repository_entry payload =
     and_then (py_get payload ''repository'' (JObj [])) (\<lambda>repo.
     and_then (py_get payload ''action'' (JStr ''unknown'')) (\<lambda>action.
     and_then (py_get repo ''full_name'' (JStr ''unknown/unknown'')) (\<lambda>repo_name.
     and_then (py_get repo ''html_url'' (JStr ''#'')) (\<lambda>repo_url.
     and_then (py_get2 repo ''owner'' ''login'' (JStr ''unknown'')) (\<lambda>owner.
     Inr (''repository:'' @ py_str repo_name,
          JObj [(''action'', action), (''name'', repo_name), (''url'', repo_url), (''owner'', owner), (''repo_full_name'', repo_name)]))))))"

definition handle_repository :: "json \<Rightarrow> system \<Rightarrow> exn option \<times> system" where
  "handle_repository payload s =
     (case repository_entry payload of
        Inl e \<Rightarrow> (Some e, s)
      | Inr (key, data) \<Rightarrow> store_and_sync key data ''repository'' s)"

definition watch_entry :: "json \<Rightarrow> exn + string \<times> json" where
  "watch_entry payload =
     and_then (py_get payload ''action'' (JStr ''starred'')) (\<lambda>action.
     and_then (py_get2 payload ''sender'' ''login'' (JStr ''unknown'')) (\<lambda>sender.
     and_then (py_get payload ''repository'' (JObj [])) (\<lambda>repository.
     and_then (py_get repository ''full_name'' (JStr ''unknown/unknown'')) (\<lambda>repo_full_name.
     and_then (py_get repository ''html_url'' (JStr ''#'')) (\<lambda>repo_url.
     Inr (''watch:'' @ py_str sender @ '':'' @ py_str repo_full_name,
          JObj [(''action'', action), (''user'', sender), (''repo_name'', repo_full_name), (''repo_url'', repo_url), (''repo_full_name'', repo_full_name)]))))))"

definition handle_watch :: "json \<Rightarrow> system \<Rightarrow> exn option \<times> system" where
  "handle_watch payload s =
     (case watch_entry payload of
        Inl e \<Rightarrow> (Some e, s)
      | Inr (key, data) \<Rightarrow> store_and_sync key data ''watch'' s)"

definition member_entry :: "json \<Rightarrow> exn + string \<times> json" where
  "member_entry payload =
     and_then (py_get payload ''member'' (JObj [])) (\<lambda>member.
     and_then (py_get member ''login'' (JStr ''unknown'')) (\<lambda>member_login.
     and_then (py_get payload ''action'' (JStr ''unknown'')) (\<lambda>action.
     and_then (py_get2 payload ''repository'' ''full_name'' (JStr ''unknown/unknown'')) (\<lambda>repo_full_name.
     and_then (py_get2 payload ''repository'' ''html_url'' (JStr ''#'')) (\<lambda>repo_url.
     Inr (''member:'' @ py_str member_login @ '':'' @ py_str repo_full_name @ '':'' @ py_str action,
          JObj [(''member_login'', member_login), (''action'', action), (''repo_full_name'', repo_full_name), (''repo_url'', repo_url)]))))))"

definition handle_member :: "json \<Rightarrow> system \<Rightarrow> exn option \<times> system" where
  "handle_member payload s =
     (case member_entry payload of
        Inl e \<Rightarrow> (Some e, s)
      | Inr (key, data) \<Rightarrow> store_and_sync key data ''member'' s)"

definition commit_comment_entry :: "json \<Rightarrow> exn + string \<times> json" where
  "commit_comment_entry payload =
     and_then (py_get payload ''comment'' (JObj [])) (\<lambda>comment.
     and_then (py_get comment ''commit_id'' (JStr ''unknown'')) (\<lambda>commit_sha.
     and_then (py_get2 comment ''user'' ''login'' (JStr ''unknown'')) (\<lambda>commenter.
     and_then (py_get comment ''html_url'' (JStr ''#'')) (\<lambda>comment_url.
     and_then (py_get comment ''body'' (JStr [])) (\<lambda>body.
     and_then (py_get2 payload ''repository'' ''full_name'' (JStr ''unknown/unknown'')) (\<lambda>repo_full_name.
     Inr (''commit_comment:'' @ py_str commit_sha @ '':'' @ py_str commenter @ '':'' @ py_str comment_url,
          JObj [(''commit_sha'', commit_sha), (''commenter'', commenter), (''url'', comment_url), (''body'', body), (''repo_full_name'', repo_full_name)])))))))"

definition handle_commit_comment :: "json \<Rightarrow> system \<Rightarrow> exn option \<times> system" where
  "handle_commit_comment payload s =
     (case commit_comment_entry payload of
        Inl e \<Rightarrow> (Some e, s)
      | Inr (key, data) \<Rightarrow> store_and_sync key data ''commit_comment'' s)"

definition public_entry :: "json \<Rightarrow> exn + string \<times> json" where
  "public_entry payload =
     and_then (py_get payload ''action'' (JStr ''made public'')) (\<lambda>action.
     and_then (py_get payload ''repository'' (JObj [])) (\<lambda>repository.
     and_then (py_get repository ''full_name'' (JStr ''unknown/unknown'')) (\<lambda>repo_full_name.
     and_then (py_get repository ''html_url'' (JStr ''#'')) (\<lambda>repo_url.
     and_then (py_get2 payload ''sender'' ''login'' (JStr ''unknown'')) (\<lambda>sender.
     Inr (''public:'' @ py_str repo_full_name,
          JObj [(''action'', action), (''repo_full_name'', repo_full_name), (''repo_url'', repo_url), (''sender'', sender)]))))))"

definition handle_public :: "json \<Rightarrow> system \<Rightarrow> exn option \<times> system" where
  "handle_public payload s =
     (case public_entry payload of
        Inl e \<Rightarrow> (Some e, s)
      | Inr (key, data) \<Rightarrow> store_and_sync key data ''public'' s)"

section \<open>Dispatch and the webhook endpoint\<close>

definition EVENT_HANDLERS :: "(string \<times> (json \<Rightarrow> system \<Rightarrow> exn option \<times> system)) list" where
  "EVENT_HANDLERS =
     [(''push'', handle_push),
      (''check_run'', handle_check_run),
      (''check_suite'', handle_check_suite),
      (''workflow_run'', handle_workflow_run),
      (''workflow_job'', handle_workflow_job),
      (''pull_request'', handle_pull_request),
      (''pull_request_review'', handle_pull_request_review),
      (''pull_request_review_comment'', handle_pull_request_review_comment),
      (''issues'', handle_issues),
      (''issue_comment'', handle_issue_comment),
      (''create'', handle_create),
      (''delete'', handle_delete),
      (''fork'', handle_fork),
      (''release'', handle_release),
      (''watch'', handle_watch),
      (''member'', handle_member),
      (''public'', handle_public),
      (''repository'', handle_repository),
      (''commit_comment'', handle_commit_comment)]"

definition handle_event :: "string \<Rightarrow> json \<Rightarrow> system \<Rightarrow> exn option \<times> system" where
  "handle_event event_type payload s =
     (case map_of EVENT_HANDLERS event_type of
        Some handler \<Rightarrow> handler payload s
      | None \<Rightarrow> (None, s))"

text \<open>
  The endpoint, after the signature check: \<^verbatim>\<open>payload = request.json or {}\<close>, then
  \<^verbatim>\<open>handle_event\<close> inside \<^verbatim>\<open>try ... except Exception\<close>, which logs the exception. The
  answer is \<^verbatim>\<open>("OK", 200)\<close> in every case; the result here is the exception that was
  logged, if any.
\<close>

definition github_webhook :: "string \<Rightarrow> json \<Rightarrow> system \<Rightarrow> exn option \<times> system" where
  "github_webhook event_type body s =
     (let payload = (if truthy body then body else JObj [])
      in handle_event event_type payload s)"

section \<open>Key fields\<close>






text \<open>
  A key field is read with \<^verbatim>\<open>payload.get(k1, {})...get(kn, dflt)\<close>; the key fields of a
  payload are read one after the other.
\<close>

fun field :: "json \<Rightarrow> string list \<Rightarrow> json \<Rightarrow> exn + json" where
  "field v [] dflt = Inr v"
| "field v [k] dflt = py_get v k dflt"
| "field v (k # k' # ks) dflt = and_then (py_get v k (JObj [])) (\<lambda>x. field x (k' # ks) dflt)"

fun key_fields :: "(string list \<times> json) list \<Rightarrow> json \<Rightarrow> exn + json list" where
  "key_fields [] payload = Inr []"
| "key_fields (f # fs) payload =
     and_then (field payload (fst f) (snd f)) (\<lambda>v.
     and_then (key_fields fs payload) (\<lambda>vs. Inr (v # vs)))"

text \<open>The key that the f-strings of the handlers build: prefix, then \<^verbatim>\<open>:<field>\<close> per field.\<close>

definition make_key :: "string \<Rightarrow> json list \<Rightarrow> string" where
  "make_key prefix vs = prefix @ concat (map (\<lambda>v. '':'' @ py_str v) vs)"

text \<open>
  The part of \<^verbatim>\<open>handle_workflow_run\<close> after the test of the action, as a function of the
  payload alone.
\<close>

definition workflow_run_normalizer :: "json \<Rightarrow> exn + string \<times> json" where
  "workflow_run_normalizer payload =
     and_then (py_get payload ''workflow_run'' (JObj [])) (\<lambda>workflow_run.
     workflow_run_entry payload workflow_run)"

text \<open>
  The key scheme of the code: for each handler but \<^verbatim>\<open>handle_push\<close>, the prefix of its keys,
  the part of the handler that builds key and record, and the key fields, each with the
  path it is read at and its default. The prefix is the event type, except for \<^verbatim>\<open>issues\<close>
  events, whose keys start with \<^verbatim>\<open>issue\<close>. \<^verbatim>\<open>handle_push\<close> builds one key per commit, from
  the commit's \<^verbatim>\<open>id\<close>.
\<close>

definition key_schemes ::
  "(string \<times> (json \<Rightarrow> exn + string \<times> json) \<times> (string list \<times> json) list) list" where
  "key_schemes =
     [
      (''check_run'', check_run_entry, [([''check_run'', ''id''], JStr ''unknown'')]),
      (''check_suite'', check_suite_entry, [([''check_suite'', ''id''], JStr ''unknown'')]),
      (''workflow_run'', workflow_run_normalizer, [([''workflow_run'', ''id''], JStr ''unknown'')]),
      (''workflow_job'', workflow_job_entry, [([''workflow_job'', ''id''], JStr ''unknown'')]),
      (''pull_request'', pull_request_entry, [([''pull_request'', ''number''], JInt 0)]),
      (''pull_request_review'', pull_request_review_entry, [([''pull_request'', ''number''], JInt 0), ([''review'', ''user'', ''login''], JStr ''unknown''), ([''review'', ''html_url''], JStr ''#'')]),
      (''pull_request_review_comment'', pull_request_review_comment_entry, [([''pull_request'', ''number''], JInt 0), ([''comment'', ''user'', ''login''], JStr ''unknown''), ([''comment'', ''html_url''], JStr ''#'')]),
      (''issue'', issues_entry, [([''issue'', ''number''], JInt 0), ([''action''], JStr ''unknown'')]),
      (''issue_comment'', issue_comment_entry, [([''issue'', ''number''], JInt 0), ([''comment'', ''user'', ''login''], JStr ''unknown''), ([''comment'', ''html_url''], JStr ''#'')]),
      (''create'', create_entry, [([''ref''], JStr ''unknown'')]),
      (''delete'', delete_entry, [([''ref''], JStr ''unknown'')]),
      (''fork'', fork_entry, [([''forkee'', ''full_name''], JStr ''unknown'')]),
      (''release'', release_entry, [([''release'', ''name''], JStr ''No Name'')]),
      (''watch'', watch_entry, [([''sender'', ''login''], JStr ''unknown''), ([''repository'', ''full_name''], JStr ''unknown/unknown'')]),
      (''member'', member_entry, [([''member'', ''login''], JStr ''unknown''), ([''repository'', ''full_name''], JStr ''unknown/unknown''), ([''action''], JStr ''unknown'')]),
      (''public'', public_entry, [([''repository'', ''full_name''], JStr ''unknown/unknown'')]),
      (''repository'', repository_entry, [([''repository'', ''full_name''], JStr ''unknown/unknown'')]),
      (''commit_comment'', commit_comment_entry, [([''comment'', ''commit_id''], JStr ''unknown''), ([''comment'', ''user'', ''login''], JStr ''unknown''), ([''comment'', ''html_url''], JStr ''#'')])]"

definition push_fields :: "(string list \<times> json) list" where
  "push_fields = [([''id''], JStr [])]"

text \<open>
  Two lists of key fields of the same kind: of the same length, integer against integer
  and string against string, and no colon in any string but those of the last field.
\<close>

fun last_kind :: "json \<Rightarrow> json \<Rightarrow> bool" where
  "last_kind (JInt i) (JInt j) = True"
| "last_kind (JStr a) (JStr b) = True"
| "last_kind _ _ = False"

fun plain_kind :: "json \<Rightarrow> json \<Rightarrow> bool" where
  "plain_kind (JInt i) (JInt j) = True"
| "plain_kind (JStr a) (JStr b) = (CHR '':'' \<notin> set a \<and> CHR '':'' \<notin> set b)"
| "plain_kind _ _ = False"

fun same_kind :: "json list \<Rightarrow> json list \<Rightarrow> bool" where
  "same_kind [] [] = True"
| "same_kind (a # as) (b # bs) =
     (if as = [] \<and> bs = [] then last_kind a b else plain_kind a b \<and> same_kind as bs)"
| "same_kind _ _ = False"

section \<open>Runs of the sync engine\<close>

text \<open>
  The enablement test at the head of \<^verbatim>\<open>send_or_edit\<close>, as predicates on the content of
  \<^verbatim>\<open>DATA_STORE\<close> and the category (the part of the key before its first colon): the
  three \<^verbatim>\<open>.get\<close> calls return, and the \<^verbatim>\<open>enabled\<close> value they find, or the default
  \<^verbatim>\<open>False\<close>, is true (enabled) or false (disabled).
\<close>

definition routing_enabled :: "json \<Rightarrow> string \<Rightarrow> bool" where
  "routing_enabled store handler =
     (case py_get2 store ''handlers'' handler (JObj []) of
        Inl e \<Rightarrow> False
      | Inr handler_config \<Rightarrow>
          (case py_get handler_config ''enabled'' (JBool False) of
             Inl e \<Rightarrow> False
           | Inr enabled \<Rightarrow> truthy enabled))"

definition routing_disabled :: "json \<Rightarrow> string \<Rightarrow> bool" where
  "routing_disabled store handler =
     (case py_get2 store ''handlers'' handler (JObj []) of
        Inl e \<Rightarrow> False
      | Inr handler_config \<Rightarrow>
          (case py_get handler_config ''enabled'' (JBool False) of
             Inl e \<Rightarrow> False
           | Inr enabled \<Rightarrow> \<not> truthy enabled))"

text \<open>
  A sequence of events for one key. Every handler submits one coroutine
  \<^verbatim>\<open>send_or_edit(key, ...)\<close> per event to the bot's event loop and does not wait for it.
  Between two steps of the loop other code (the handlers, the administrative commands)
  may have rewritten \<^verbatim>\<open>DATA_STORE\<close>; each event therefore carries the content of
  \<^verbatim>\<open>DATA_STORE\<close> that its coroutine finds when it starts, and what Discord answers to its
  calls. Only \<^verbatim>\<open>send_or_edit\<close> writes \<^verbatim>\<open>MESSAGE_MAP\<close>.
\<close>






fun is_send :: "call \<Rightarrow> bool" where
  "is_send (SendMessage c) = True"
| "is_send _ = False"


fun is_edit :: "call \<Rightarrow> bool" where
  "is_edit (EditMessage m) = True"
| "is_edit _ = False"

text \<open>The stored message is reported missing: by the fetch, or by the edit after it.\<close>

definition gone :: "discord \<Rightarrow> bool" where
  "gone d = (fetch_message d = Some NotFound \<or> (fetch_message d = None \<and> edit d = Some NotFound))"




section \<open>The record store\<close>

lemma update_fresh:
  "k \<notin> fst ` set al \<Longrightarrow> AList.update k v al = al @ [(k, v)]"
  by (induction al) auto

lemma foldl_update_distinct:
  "distinct (map fst (acc @ kvs)) \<Longrightarrow>
   foldl (\<lambda>d kv. AList.update (fst kv) (snd kv) d) acc kvs = acc @ kvs"
proof (induction kvs arbitrary: acc)
  case Nil
  then show ?case by simp
next
  case (Cons kv kvs)
  have fresh: "fst kv \<notin> fst ` set acc" using Cons.prems by auto
  have "distinct (map fst ((acc @ [kv]) @ kvs))" using Cons.prems by simp
  then have "foldl (\<lambda>d kv. AList.update (fst kv) (snd kv) d) (acc @ [kv]) kvs = (acc @ [kv]) @ kvs"
    by (rule Cons.IH)
  then show ?case using fresh by (simp add: update_fresh[of "fst kv" acc "snd kv"])
qed

text \<open>Loading what was dumped from a Python value gives the value back.\<close>

lemma json_load_id: "is_py_value v \<Longrightarrow> json_load v = v"
proof (induction v)
  case (JList xs)
  then have "map json_load xs = xs"
    by (simp add: list_all_iff map_idI)
  then show ?case by simp
next
  case (JObj kvs)
  have "\<And>kv. kv \<in> set kvs \<Longrightarrow> json_load (snd kv) = snd kv"
  proof -
    fix kv assume m: "kv \<in> set kvs"
    have "is_py_value (snd kv)" using JObj.prems m by (simp add: list_all_iff)
    moreover have "snd kv \<in> Basic_BNFs.snds kv" by (cases kv) simp
    ultimately show "json_load (snd kv) = snd kv" using JObj.IH m by blast
  qed
  then have "map (\<lambda>kv. (fst kv, json_load (snd kv))) kvs = kvs"
    by (simp add: map_idI)
  moreover have "distinct (map fst ([] @ kvs))" using JObj.prems by simp
  ultimately show ?case
    using foldl_update_distinct[of "[]" kvs] by simp
qed simp_all

text \<open>
  C9. After \<^verbatim>\<open>update_data_store(k, r1)\<close> followed by \<^verbatim>\<open>update_data_store(k, r2)\<close>, the store
  holds exactly \<open>r2\<close> under \<open>k\<close>, whatever \<open>r1\<close> was, and every other key reads as before
  the two calls. This holds for the in-memory store also when a write to the file
  fails (\<open>e1\<close>, \<open>e2\<close> are the exceptions of the two calls, if any).
\<close>

theorem overwrite_semantics:
  assumes "DATA_STORE s = JObj kvs"
    and "update_data_store k r1 s = (e1, s1)"
    and "update_data_store k r2 s1 = (e2, s2)"
  shows "py_getitem (get_data_store s2) k = Inr r2
         \<and> (\<forall>k'. k' \<noteq> k \<longrightarrow> py_getitem (get_data_store s2) k' = py_getitem (get_data_store s) k')"
  using assms
  by (auto simp: update_data_store_def save_data_def get_data_store_def update_conv'
           split: media.splits)

theorem overwrite_semantics_witness:
  "py_getitem (get_data_store (snd (update_data_store ''push:abc123'' (JObj [(''message'', JStr ''second'')])
       (snd (update_data_store ''push:abc123'' (JObj [(''message'', JStr ''first''), (''url'', JStr ''#'')])
          ((init Absent Writable)\<lparr>DATA_STORE := JObj [(''push:000'', JObj [])]\<rparr>)))))) ''push:abc123''
   = Inr (JObj [(''message'', JStr ''second'')])
   \<and> py_getitem (get_data_store (snd (update_data_store ''push:abc123'' (JObj [(''message'', JStr ''second'')])
       (snd (update_data_store ''push:abc123'' (JObj [(''message'', JStr ''first''), (''url'', JStr ''#'')])
          ((init Absent Writable)\<lparr>DATA_STORE := JObj [(''push:000'', JObj [])]\<rparr>)))))) ''push:000''
   = Inr (JObj [])"
proof -
  let ?s = "(init Absent Writable)\<lparr>DATA_STORE := JObj [(''push:000'', JObj [])]\<rparr>"
  let ?r1 = "JObj [(''message'', JStr ''first''), (''url'', JStr ''#'')]"
  let ?r2 = "JObj [(''message'', JStr ''second'')]"
  let ?s1 = "snd (update_data_store ''push:abc123'' ?r1 ?s)"
  have a: "DATA_STORE ?s = JObj [(''push:000'', JObj [])]" by (simp add: init_def)
  have b: "update_data_store ''push:abc123'' ?r1 ?s
           = (fst (update_data_store ''push:abc123'' ?r1 ?s), ?s1)"
    by simp
  have c: "update_data_store ''push:abc123'' ?r2 ?s1
           = (fst (update_data_store ''push:abc123'' ?r2 ?s1),
              snd (update_data_store ''push:abc123'' ?r2 ?s1))"
    by simp
  have d: "py_getitem (get_data_store ?s) ''push:000'' = Inr (JObj [])"
    by (simp add: get_data_store_def init_def)
  from overwrite_semantics[OF a b c] d show ?thesis by simp
qed

text \<open>
  C7. Round trip of the persisted document. When \<^verbatim>\<open>save_data\<close> completes, a process
  that finds the file as the save left it (here any state \<open>t\<close> with that file, for
  instance a fresh \<^verbatim>\<open>DataPersistence\<close> after a restart) loads exactly the two dictionaries
  that were in memory when the save ran. The dictionaries are Python values: no
  dictionary in them holds a key twice.
\<close>

theorem save_load_roundtrip:
  assumes "save_data s = (None, s')"
    and "is_py_value (DATA_STORE s)" and "is_py_value (MESSAGE_MAP s)"
    and "disk t = disk s'"
  shows "fst (load_data t) = None
         \<and> DATA_STORE (snd (load_data t)) = DATA_STORE s
         \<and> MESSAGE_MAP (snd (load_data t)) = MESSAGE_MAP s"
proof -
  have d: "disk t = Document (JObj [(''DATA_STORE'', DATA_STORE s), (''MESSAGE_MAP'', MESSAGE_MAP s)])"
    using assms(1,4) by (auto simp: save_data_def split: media.splits)
  have "is_py_value (JObj [(''DATA_STORE'', DATA_STORE s), (''MESSAGE_MAP'', MESSAGE_MAP s)])"
    using assms(2,3) by simp
  then have "json_load (JObj [(''DATA_STORE'', DATA_STORE s), (''MESSAGE_MAP'', MESSAGE_MAP s)])
             = JObj [(''DATA_STORE'', DATA_STORE s), (''MESSAGE_MAP'', MESSAGE_MAP s)]"
    by (rule json_load_id)
  then show ?thesis using d by (simp add: load_data_def del: json_load.simps)
qed

theorem save_load_roundtrip_witness:
  "fst (load_data (init (disk (snd (save_data
       ((init Absent Writable)\<lparr>DATA_STORE := JObj [(''push:abc123'', JObj [(''message'', JStr ''fix''), (''url'', JStr ''#'')]),
                                                  (''handlers'', JObj [(''push'', JObj [(''enabled'', JBool True)])])],
                                 MESSAGE_MAP := JObj [(''push:abc123'', JInt 42)]\<rparr>)))) Writable)) = None
   \<and> DATA_STORE (snd (load_data (init (disk (snd (save_data
       ((init Absent Writable)\<lparr>DATA_STORE := JObj [(''push:abc123'', JObj [(''message'', JStr ''fix''), (''url'', JStr ''#'')]),
                                                  (''handlers'', JObj [(''push'', JObj [(''enabled'', JBool True)])])],
                                 MESSAGE_MAP := JObj [(''push:abc123'', JInt 42)]\<rparr>)))) Writable)))
     = JObj [(''push:abc123'', JObj [(''message'', JStr ''fix''), (''url'', JStr ''#'')]),
             (''handlers'', JObj [(''push'', JObj [(''enabled'', JBool True)])])]
   \<and> MESSAGE_MAP (snd (load_data (init (disk (snd (save_data
       ((init Absent Writable)\<lparr>DATA_STORE := JObj [(''push:abc123'', JObj [(''message'', JStr ''fix''), (''url'', JStr ''#'')]),
                                                  (''handlers'', JObj [(''push'', JObj [(''enabled'', JBool True)])])],
                                 MESSAGE_MAP := JObj [(''push:abc123'', JInt 42)]\<rparr>)))) Writable)))
     = JObj [(''push:abc123'', JInt 42)]"
proof -
  let ?s = "(init Absent Writable)\<lparr>DATA_STORE := JObj [(''push:abc123'', JObj [(''message'', JStr ''fix''), (''url'', JStr ''#'')]),
                                                  (''handlers'', JObj [(''push'', JObj [(''enabled'', JBool True)])])],
                                 MESSAGE_MAP := JObj [(''push:abc123'', JInt 42)]\<rparr>"
  have a: "save_data ?s = (None, snd (save_data ?s))" by (simp add: save_data_def init_def)
  have b: "is_py_value (DATA_STORE ?s)" by (simp add: init_def)
  have c: "is_py_value (MESSAGE_MAP ?s)" by (simp add: init_def)
  have d: "disk (init (disk (snd (save_data ?s))) Writable) = disk (snd (save_data ?s))"
    by (simp add: init_def)
  from save_load_roundtrip[OF a b c d] show ?thesis by (simp add: init_def)
qed

text \<open>
  C8. A write that fails during \<^verbatim>\<open>update_data_store\<close> is not caught inside the store:
  \<^verbatim>\<open>save_data\<close> has no \<^verbatim>\<open>try\<close>, so the \<^verbatim>\<open>OSError\<close> leaves \<^verbatim>\<open>update_data_store\<close> and the
  handler that called it. At a store whose file cannot be opened for writing, the call
  and the handler's tail both end with the exception.
\<close>

theorem write_failure_counterexample:
  "fst (update_data_store ''check_run:7'' (JObj [(''name'', JStr ''build'')]) (init Absent OpenFails))
     = Some OSError
   \<and> fst (store_and_sync ''check_run:7'' (JObj [(''name'', JStr ''build'')]) ''check_run''
            (init Absent OpenFails)) = Some OSError"
  by (simp add: update_data_store_def store_and_sync_def save_data_def init_def)

text \<open>
  C8, as the code has it. When the write fails, it is tried once; the dictionary in
  memory keeps the new entry and the other dictionary is untouched; the file keeps its
  old content (the open failed) or is left truncated (the write failed); the \<^verbatim>\<open>OSError\<close>
  leaves \<^verbatim>\<open>update_data_store\<close>, so the handler ends before it schedules the sync call.
  The webhook endpoint catches and logs the exception (shown for a \<^verbatim>\<open>check_run\<close> event).
  Inside \<^verbatim>\<open>send_or_edit\<close>, the \<^verbatim>\<open>OSError\<close> of \<^verbatim>\<open>update_message_map\<close> is caught and logged by
  \<^verbatim>\<open>send_or_edit\<close> itself, and \<^verbatim>\<open>MESSAGE_MAP\<close> keeps the new id.
\<close>

theorem write_failure_escapes:
  assumes "media s \<noteq> Writable" and "DATA_STORE s = JObj kvs" and "MESSAGE_MAP s = JObj mm"
  shows "fst (update_data_store key v s) = Some OSError
       \<and> DATA_STORE (snd (update_data_store key v s)) = JObj (AList.update key v kvs)
       \<and> MESSAGE_MAP (snd (update_data_store key v s)) = MESSAGE_MAP s
       \<and> disk (snd (update_data_store key v s)) = (if media s = OpenFails then disk s else Malformed)
       \<and> store_and_sync key v handler_name s = update_data_store key v s
       \<and> loop (snd (store_and_sync key v handler_name s)) = loop s
       \<and> (truthy payload \<and> check_run_entry payload = Inr (key, v) \<longrightarrow>
            github_webhook ''check_run'' payload s = update_data_store key v s)
       \<and> (send d = Inr i \<longrightarrow>
            fst (snd (send_new d channel_id key s)) = Caught OSError
            \<and> MESSAGE_MAP (snd (snd (send_new d channel_id key s))) = JObj (AList.update key (JInt i) mm)
            \<and> DATA_STORE (snd (snd (send_new d channel_id key s))) = DATA_STORE s)"
  using assms
  by (cases "media s")
     (simp_all add: update_data_store_def store_and_sync_def save_data_def send_new_def
        update_message_map_def github_webhook_def handle_event_def EVENT_HANDLERS_def
        handle_check_run_def)

theorem write_failure_escapes_witness:
  "fst (update_data_store ''check_run:7''
          (JObj [(''name'', JStr ''build''), (''url'', JStr ''#''), (''status'', JStr ''unknown''),
                 (''conclusion'', JStr ''unknown''), (''head_sha'', JStr ''unknown''),
                 (''repo_full_name'', JStr ''unknown/unknown'')])
          (init Absent WriteFails)) = Some OSError
   \<and> disk (snd (update_data_store ''check_run:7''
          (JObj [(''name'', JStr ''build''), (''url'', JStr ''#''), (''status'', JStr ''unknown''),
                 (''conclusion'', JStr ''unknown''), (''head_sha'', JStr ''unknown''),
                 (''repo_full_name'', JStr ''unknown/unknown'')])
          (init Absent WriteFails))) = Malformed
   \<and> github_webhook ''check_run'' (JObj [(''check_run'', JObj [(''id'', JInt 7), (''name'', JStr ''build'')])])
        (init Absent WriteFails)
      = update_data_store ''check_run:7''
          (JObj [(''name'', JStr ''build''), (''url'', JStr ''#''), (''status'', JStr ''unknown''),
                 (''conclusion'', JStr ''unknown''), (''head_sha'', JStr ''unknown''),
                 (''repo_full_name'', JStr ''unknown/unknown'')])
          (init Absent WriteFails)
   \<and> fst (snd (send_new \<lparr>DEFAULT_DISCORD_CHANNEL_ID = 1, build_embed = None, get_channel = True,
                          fetch_message = None, edit = None, send = Inr 42\<rparr>
                        (JInt 1) ''check_run:7'' (init Absent WriteFails))) = Caught OSError
   \<and> MESSAGE_MAP (snd (snd (send_new \<lparr>DEFAULT_DISCORD_CHANNEL_ID = 1, build_embed = None, get_channel = True,
                          fetch_message = None, edit = None, send = Inr 42\<rparr>
                        (JInt 1) ''check_run:7'' (init Absent WriteFails))))
      = JObj [(''check_run:7'', JInt 42)]"
proof -
  let ?s = "init Absent WriteFails"
  let ?p = "JObj [(''check_run'', JObj [(''id'', JInt 7), (''name'', JStr ''build'')])]"
  let ?d = "\<lparr>DEFAULT_DISCORD_CHANNEL_ID = 1, build_embed = None, get_channel = True,
             fetch_message = None, edit = None, send = Inr 42\<rparr>"
  have a: "media ?s \<noteq> Writable" by (simp add: init_def)
  have b: "DATA_STORE ?s = JObj []" by (simp add: init_def)
  have c: "MESSAGE_MAP ?s = JObj []" by (simp add: init_def)
  have e: "check_run_entry ?p = Inr (''check_run:7'',
          JObj [(''name'', JStr ''build''), (''url'', JStr ''#''), (''status'', JStr ''unknown''),
                 (''conclusion'', JStr ''unknown''), (''head_sha'', JStr ''unknown''),
                 (''repo_full_name'', JStr ''unknown/unknown'')])"
    by (simp add: check_run_entry_def and_then_def py_get2_def py_str_def str_int_def
          str_nat.simps digit_char_def)
  have t: "truthy ?p" by simp
  have m: "media ?s \<noteq> OpenFails" by (simp add: init_def)
  from write_failure_escapes[OF a b c, where key = "''check_run:7''" and handler_name = "''check_run''"
         and payload = ?p and d = ?d and i = 42 and channel_id = "JInt 1"] e t m
  show ?thesis by simp
qed

section \<open>Routing\<close>

text \<open>
  C10. A key whose category has no routing entry (no \<^verbatim>\<open>"handlers"\<close> object in the store,
  or no entry for the category in it, or an entry without an \<^verbatim>\<open>"enabled"\<close> field) is
  treated as disabled: \<^verbatim>\<open>send_or_edit\<close> makes no call at all, returns, and leaves the
  state as it was.
\<close>

theorem unconfigured_category_is_noop:
  assumes "DATA_STORE s = JObj store"
    and "map_of store ''handlers'' = None
         \<or> (\<exists>hs. map_of store ''handlers'' = Some (JObj hs)
               \<and> (map_of hs (handler_of key) = None
                    \<or> (\<exists>cfg. map_of hs (handler_of key) = Some (JObj cfg)
                          \<and> map_of cfg ''enabled'' = None)))"
  shows "send_or_edit d key handler_name s = ([], Returned, s)"
  using assms
  by (auto simp: send_or_edit_def get_data_store_def)

theorem unconfigured_category_is_noop_witness:
  "send_or_edit \<lparr>DEFAULT_DISCORD_CHANNEL_ID = 1, build_embed = None, get_channel = True,
                  fetch_message = None, edit = None, send = Inr 42\<rparr>
     ''push:abc123'' ''push''
     ((init Absent Writable)\<lparr>DATA_STORE :=
         JObj [(''push:abc123'', JObj [(''message'', JStr ''fix'')]),
               (''handlers'', JObj [(''push'', JObj [(''channel_id'', JInt 5)])])]\<rparr>)
   = ([], Returned,
      (init Absent Writable)\<lparr>DATA_STORE :=
         JObj [(''push:abc123'', JObj [(''message'', JStr ''fix'')]),
               (''handlers'', JObj [(''push'', JObj [(''channel_id'', JInt 5)])])]\<rparr>)"
proof -
  let ?st = "[(''push:abc123'', JObj [(''message'', JStr ''fix'')]),
               (''handlers'', JObj [(''push'', JObj [(''channel_id'', JInt 5)])])]"
  let ?s = "(init Absent Writable)\<lparr>DATA_STORE := JObj ?st\<rparr>"
  have a: "DATA_STORE ?s = JObj ?st" by simp
  have b: "map_of ?st ''handlers'' = None
         \<or> (\<exists>hs. map_of ?st ''handlers'' = Some (JObj hs)
               \<and> (map_of hs (handler_of ''push:abc123'') = None
                    \<or> (\<exists>cfg. map_of hs (handler_of ''push:abc123'') = Some (JObj cfg)
                          \<and> map_of cfg ''enabled'' = None)))"
    by (simp add: handler_of_def)
  from unconfigured_category_is_noop[OF a b] show ?thesis .
qed

section \<open>The sync engine\<close>

text \<open>
  With the category enabled, the embed built and the channel found, a run of
  \<^verbatim>\<open>send_or_edit\<close> is its \<^verbatim>\<open>try\<close> block after the two calls that precede it.
\<close>

lemma py_get_Inr: "py_get x k dflt = Inr v \<Longrightarrow> \<exists>kvs. x = JObj kvs"
  by (cases x) simp_all

lemma send_or_edit_enabled:
  assumes "routing_enabled (DATA_STORE s) (handler_of key)" and "build_embed d = None" and "get_channel d"
  shows "\<exists>data channel_id.
           send_or_edit d key handler_name s =
             (case sync_message d channel_id key s of
                (cs, r, s') \<Rightarrow> (BuildEmbed key data handler_name # GetChannel channel_id # cs, r, s'))"
proof -
  obtain store where st: "DATA_STORE s = JObj store"
    using assms(1) by (cases "DATA_STORE s") (simp_all add: routing_enabled_def py_get2_def and_then_def)
  obtain hs where hs: "py_get (JObj store) ''handlers'' (JObj []) = Inr hs" by simp
  obtain cfg where cfg: "py_get hs (handler_of key) (JObj []) = Inr cfg"
    using assms(1) st hs
    by (cases "py_get hs (handler_of key) (JObj [])")
       (simp_all add: routing_enabled_def py_get2_def and_then_def)
  obtain en where en: "py_get cfg ''enabled'' (JBool False) = Inr en" and t: "truthy en"
    using assms(1) st hs cfg
    by (cases "py_get cfg ''enabled'' (JBool False)")
       (simp_all add: routing_enabled_def py_get2_def and_then_def)
  obtain c where c: "cfg = JObj c" using en py_get_Inr by blast
  let ?ch = "case map_of c ''channel_id'' of
               None \<Rightarrow> JInt (DEFAULT_DISCORD_CHANNEL_ID d) | Some v \<Rightarrow> v"
  let ?data = "case map_of store key of None \<Rightarrow> JObj [] | Some v \<Rightarrow> v"
  have "send_or_edit d key handler_name s =
          (case sync_message d ?ch key s of
             (cs, r, s') \<Rightarrow> (BuildEmbed key ?data handler_name # GetChannel ?ch # cs, r, s'))"
    using st hs cfg en t c assms(2,3)
    by (simp add: send_or_edit_def get_data_store_def)
  then show ?thesis by blast
qed

lemma sync_message_present:
  assumes "MESSAGE_MAP s = JObj mm" and "map_of mm key = Some mid"
  shows "sync_message d ch key s =
     (case fetch_message d of
        Some e \<Rightarrow>
          (if e = NotFound then
             (case send_new d ch key s of (cs, r, s') \<Rightarrow> (FetchMessage mid # cs, r, s'))
           else ([FetchMessage mid], Caught e, s))
      | None \<Rightarrow>
          (case edit d of
             Some e \<Rightarrow>
               (if e = NotFound then
                  (case send_new d ch key s of
                     (cs, r, s') \<Rightarrow> (FetchMessage mid # EditMessage mid # cs, r, s'))
                else ([FetchMessage mid, EditMessage mid], Caught e, s))
           | None \<Rightarrow> ([FetchMessage mid, EditMessage mid], Returned, s)))"
  using assms by (simp add: sync_message_def get_message_map_def)


lemma send_new_Inr:
  assumes "MESSAGE_MAP s = JObj mm" and "send d = Inr i"
  shows "\<exists>r s'. send_new d ch key s = ([SendMessage ch], r, s')
           \<and> MESSAGE_MAP s' = JObj (AList.update key (JInt i) mm)
           \<and> DATA_STORE s' = DATA_STORE s"
  using assms
  by (cases "media s") (simp_all add: send_new_def update_message_map_def save_data_def)

lemma send_new_Inl:
  assumes "send d = Inl e"
  shows "send_new d ch key s = ([SendMessage ch], Caught e, s)"
  using assms by (simp add: send_new_def)

text \<open>
  C3. The key is already in \<^verbatim>\<open>MESSAGE_MAP\<close> when \<^verbatim>\<open>send_or_edit\<close> runs (category enabled,
  embed built, channel found). If fetch and edit succeed, the state is unchanged and
  nothing is sent. If the fetch or the edit raises \<^verbatim>\<open>NotFound\<close>, one message is sent, and
  when that send succeeds the entry of the key is overwritten with the new id (when
  the send fails, the exception is logged and the state is unchanged). If the fetch or
  the edit fails in any other way, the exception is logged, nothing is sent and the
  state, hence \<^verbatim>\<open>MESSAGE_MAP\<close>, is unchanged.
\<close>

theorem edit_outcomes:
  assumes "MESSAGE_MAP s = JObj mm" and "map_of mm key = Some mid"
    and "routing_enabled (DATA_STORE s) (handler_of key)" and "build_embed d = None" and "get_channel d"
    and "send_or_edit d key handler_name s = (cs, r, s')"
  shows "(fetch_message d = None \<and> edit d = None \<longrightarrow>
            s' = s \<and> r = Returned \<and> filter is_send cs = [] \<and> filter is_edit cs = [EditMessage mid])
       \<and> (gone d \<longrightarrow>
            length (filter is_send cs) = 1
            \<and> (\<forall>i. send d = Inr i \<longrightarrow>
                  MESSAGE_MAP s' = JObj (AList.update key (JInt i) mm)
                  \<and> py_getitem (get_message_map s') key = Inr (JInt i))
            \<and> (\<forall>e. send d = Inl e \<longrightarrow> s' = s \<and> r = Caught e))
       \<and> (\<not> gone d \<and> (fetch_message d \<noteq> None \<or> edit d \<noteq> None) \<longrightarrow>
            s' = s \<and> (\<exists>e. r = Caught e) \<and> filter is_send cs = [])"
proof -
  obtain data ch where se:
    "send_or_edit d key handler_name s =
       (case sync_message d ch key s of
          (cs, r, s') \<Rightarrow> (BuildEmbed key data handler_name # GetChannel ch # cs, r, s'))"
    using send_or_edit_enabled[OF assms(3,4,5)] by blast
  note sm = sync_message_present[OF assms(1,2), of d ch]
  show ?thesis
  proof (cases "send d")
    case (Inl e)
    then show ?thesis
      using assms(6) se sm send_new_Inl[OF Inl, of ch key s]
      by (auto simp: gone_def split: option.splits if_splits)
  next
    case (Inr i)
    obtain r1 s1 where sn: "send_new d ch key s = ([SendMessage ch], r1, s1)"
      and mm1: "MESSAGE_MAP s1 = JObj (AList.update key (JInt i) mm)"
      using send_new_Inr[OF assms(1) Inr, of ch key] by blast
    then show ?thesis
      using assms(6) se sm Inr
      by (auto simp: gone_def get_message_map_def update_conv' split: option.splits if_splits)
  qed
qed

theorem edit_outcomes_witness:
  "length (filter is_send (fst (send_or_edit \<lparr>DEFAULT_DISCORD_CHANNEL_ID = 1, build_embed = None, get_channel = True, fetch_message = Some NotFound, edit = None, send = Inr 101\<rparr> ''push:abc123'' ''push'' ((init Absent Writable)\<lparr>DATA_STORE := JObj [(''push:abc123'', JObj [(''message'', JStr ''fix'')]), (''handlers'', JObj [(''push'', JObj [(''enabled'', JBool True)])])], MESSAGE_MAP := JObj [(''push:abc123'', JInt 100)]\<rparr>)))) = 1
   \<and> MESSAGE_MAP (snd (snd (send_or_edit \<lparr>DEFAULT_DISCORD_CHANNEL_ID = 1, build_embed = None, get_channel = True, fetch_message = Some NotFound, edit = None, send = Inr 101\<rparr> ''push:abc123'' ''push'' ((init Absent Writable)\<lparr>DATA_STORE := JObj [(''push:abc123'', JObj [(''message'', JStr ''fix'')]), (''handlers'', JObj [(''push'', JObj [(''enabled'', JBool True)])])], MESSAGE_MAP := JObj [(''push:abc123'', JInt 100)]\<rparr>)))) = JObj [(''push:abc123'', JInt 101)]"
proof -
  let ?d = "\<lparr>DEFAULT_DISCORD_CHANNEL_ID = 1, build_embed = None, get_channel = True, fetch_message = Some NotFound, edit = None, send = Inr 101\<rparr>"
  let ?s = "(init Absent Writable)\<lparr>DATA_STORE := JObj [(''push:abc123'', JObj [(''message'', JStr ''fix'')]), (''handlers'', JObj [(''push'', JObj [(''enabled'', JBool True)])])], MESSAGE_MAP := JObj [(''push:abc123'', JInt 100)]\<rparr>"
  have a: "MESSAGE_MAP ?s = JObj [(''push:abc123'', JInt 100)]" by simp
  have b: "map_of [(''push:abc123'', JInt 100)] ''push:abc123'' = Some (JInt 100)" by simp
  have c: "routing_enabled (DATA_STORE ?s) (handler_of ''push:abc123'')"
    by (simp add: routing_enabled_def handler_of_def py_get2_def and_then_def)
  have d: "build_embed ?d = None" by simp
  have e: "get_channel ?d" by simp
  have f: "send_or_edit ?d ''push:abc123'' ''push'' ?s
           = (fst (send_or_edit ?d ''push:abc123'' ''push'' ?s),
              fst (snd (send_or_edit ?d ''push:abc123'' ''push'' ?s)),
              snd (snd (send_or_edit ?d ''push:abc123'' ''push'' ?s)))"
    by simp
  have g: "gone ?d" by (simp add: gone_def)
  from edit_outcomes[OF a b c d e f] g show ?thesis by simp
qed






















section \<open>Disabled categories\<close>

lemma send_or_edit_disabled:
  assumes "routing_disabled (DATA_STORE s) (handler_of key)"
  shows "send_or_edit d key handler_name s = ([], Returned, s)"
  using assms
  by (auto simp: routing_disabled_def send_or_edit_def get_data_store_def py_get2_def
        and_then_def split: sum.splits)

lemma store_and_sync_None:
  assumes "store_and_sync key data handler_name s = (None, s')"
  shows "\<exists>st. DATA_STORE s = JObj st \<and> DATA_STORE s' = JObj (AList.update key data st)
           \<and> loop s' = loop s @ [(key, handler_name)] \<and> MESSAGE_MAP s' = MESSAGE_MAP s"
  using assms
  by (cases "DATA_STORE s"; cases "media s")
     (auto simp: store_and_sync_def update_data_store_def save_data_def)

lemma push_entry_key:
  assumes "push_entry rfn c = Inr (k, data)"
  shows "handler_of k = ''push'' \<and> k \<noteq> ''handlers''"
  using assms
  by (auto simp: push_entry_def and_then_def handler_of_def split: sum.splits)

lemma map_of_foldl_update_other:
  "k \<notin> fst ` set kds \<Longrightarrow>
   map_of (foldl (\<lambda>al kd. AList.update (fst kd) (snd kd) al) st kds) k = map_of st k"
  by (induction kds arbitrary: st) (auto simp: update_conv')

lemma map_of_foldl_update_mem:
  "k \<in> fst ` set kds \<Longrightarrow>
   \<exists>data. map_of (foldl (\<lambda>al kd. AList.update (fst kd) (snd kd) al) st kds) k = Some data
          \<and> (k, data) \<in> set kds"
proof (induction kds arbitrary: st)
  case Nil
  then show ?case by simp
next
  case (Cons kd kds)
  show ?case
  proof (cases "k \<in> fst ` set kds")
    case True
    from Cons.IH[OF True, of "AList.update (fst kd) (snd kd) st"] show ?thesis by auto
  next
    case False
    then have "k = fst kd" using Cons.prems by auto
    then show ?thesis
      using map_of_foldl_update_other[OF False, of "AList.update (fst kd) (snd kd) st"]
      by (cases kd) (simp add: update_conv')
  qed
qed

lemma push_commits_None:
  assumes "push_commits rfn cs s = (None, s')" and "DATA_STORE s = JObj st"
  shows "\<exists>kds. list_all2 (\<lambda>c kd. push_entry rfn c = Inr kd) cs kds
           \<and> DATA_STORE s' = JObj (foldl (\<lambda>al kd. AList.update (fst kd) (snd kd) al) st kds)
           \<and> loop s' = loop s @ map (\<lambda>kd. (fst kd, ''push'')) kds
           \<and> MESSAGE_MAP s' = MESSAGE_MAP s"
  using assms
proof (induction cs arbitrary: s st)
  case Nil
  then show ?case by simp
next
  case (Cons c cs)
  obtain k data where e: "push_entry rfn c = Inr (k, data)"
    using Cons.prems(1) by (cases "push_entry rfn c") auto
  obtain s1 where s1: "store_and_sync k data ''push'' s = (None, s1)"
    and rest: "push_commits rfn cs s1 = (None, s')"
    using Cons.prems(1) e
    by (cases "store_and_sync k data ''push'' s") (auto split: option.splits)
  have d1: "DATA_STORE s1 = JObj (AList.update k data st)"
    and l1: "loop s1 = loop s @ [(k, ''push'')]" and m1: "MESSAGE_MAP s1 = MESSAGE_MAP s"
    using store_and_sync_None[OF s1] Cons.prems(2) by auto
  obtain kds where a: "list_all2 (\<lambda>c kd. push_entry rfn c = Inr kd) cs kds"
    and b: "DATA_STORE s' = JObj (foldl (\<lambda>al kd. AList.update (fst kd) (snd kd) al) (AList.update k data st) kds)"
    and c: "loop s' = loop s1 @ map (\<lambda>kd. (fst kd, ''push'')) kds"
    and d: "MESSAGE_MAP s' = MESSAGE_MAP s1"
    using Cons.IH[OF rest d1] by blast
  show ?case
    using a b c d e l1 m1
    by (intro exI[of _ "(k, data) # kds"]) simp
qed

lemma routing_disabled_cong:
  assumes "map_of st' ''handlers'' = map_of st ''handlers''"
  shows "routing_disabled (JObj st') h = routing_disabled (JObj st) h"
  using assms by (simp add: routing_disabled_def py_get2_def and_then_def)

lemma handle_push_disabled:
  assumes "routing_disabled (DATA_STORE s) ''push''"
    and "py_get payload ''commits'' (JList []) = Inr (JList commits)"
    and "py_get2 payload ''repository'' ''full_name'' (JStr ''unknown/unknown'') = Inr repo_full_name"
    and "handle_push payload s = (None, s')"
  shows "\<exists>kds. list_all2 (\<lambda>c kd. push_entry repo_full_name c = Inr kd) commits kds
           \<and> loop s' = loop s @ map (\<lambda>kd. (fst kd, ''push'')) kds
           \<and> MESSAGE_MAP s' = MESSAGE_MAP s
           \<and> (\<forall>kd \<in> set kds.
                 (\<exists>data. py_getitem (get_data_store s') (fst kd) = Inr data \<and> (fst kd, data) \<in> set kds)
                 \<and> send_or_edit d (fst kd) ''push'' s' = ([], Returned, s'))"
proof -
  obtain st where st: "DATA_STORE s = JObj st"
    using assms(1)
    by (cases "DATA_STORE s") (simp_all add: routing_disabled_def py_get2_def and_then_def)
  have pc: "push_commits repo_full_name commits s = (None, s')"
    using assms(2,3,4)
    by (auto simp: handle_push_def py_get2_def and_then_def split: sum.splits)
  obtain kds where a: "list_all2 (\<lambda>c kd. push_entry repo_full_name c = Inr kd) commits kds"
    and b: "DATA_STORE s' = JObj (foldl (\<lambda>al kd. AList.update (fst kd) (snd kd) al) st kds)"
    and c: "loop s' = loop s @ map (\<lambda>kd. (fst kd, ''push'')) kds"
    and d: "MESSAGE_MAP s' = MESSAGE_MAP s"
    using push_commits_None[OF pc st] by blast
  have keys: "\<And>kd. kd \<in> set kds \<Longrightarrow> handler_of (fst kd) = ''push'' \<and> fst kd \<noteq> ''handlers''"
  proof -
    fix kd assume "kd \<in> set kds"
    then obtain c where "push_entry repo_full_name c = Inr kd"
      using a by (auto simp: list_all2_conv_all_nth in_set_conv_nth)
    then show "handler_of (fst kd) = ''push'' \<and> fst kd \<noteq> ''handlers''"
      using push_entry_key[of repo_full_name c "fst kd" "snd kd"] by simp
  qed
  have "''handlers'' \<notin> fst ` set kds" using keys by fastforce
  then have h: "map_of (foldl (\<lambda>al kd. AList.update (fst kd) (snd kd) al) st kds) ''handlers''
                = map_of st ''handlers''"
    by (rule map_of_foldl_update_other)
  have dis: "routing_disabled (DATA_STORE s') ''push''"
    using assms(1) st b routing_disabled_cong[OF h] by simp
  have each: "\<forall>kd \<in> set kds.
                 (\<exists>data. py_getitem (get_data_store s') (fst kd) = Inr data \<and> (fst kd, data) \<in> set kds)
                 \<and> send_or_edit d (fst kd) ''push'' s' = ([], Returned, s')"
  proof
    fix kd assume m: "kd \<in> set kds"
    then have fk: "fst kd \<in> fst ` set kds" by simp
    obtain data where
      "map_of (foldl (\<lambda>al kd. AList.update (fst kd) (snd kd) al) st kds) (fst kd) = Some data"
      and "(fst kd, data) \<in> set kds"
      using map_of_foldl_update_mem[OF fk, of st] by blast
    then have 1: "\<exists>data. py_getitem (get_data_store s') (fst kd) = Inr data \<and> (fst kd, data) \<in> set kds"
      using b by (auto simp: get_data_store_def)
    have "routing_disabled (DATA_STORE s') (handler_of (fst kd))"
      using dis keys[OF m] by simp
    then have 2: "send_or_edit d (fst kd) ''push'' s' = ([], Returned, s')"
      by (rule send_or_edit_disabled)
    from 1 2 show "(\<exists>data. py_getitem (get_data_store s') (fst kd) = Inr data \<and> (fst kd, data) \<in> set kds)
                 \<and> send_or_edit d (fst kd) ''push'' s' = ([], Returned, s')" by blast
  qed
  from a c d each show ?thesis by blast
qed

lemma store_and_sync_disabled:
  assumes "routing_disabled (DATA_STORE s) (handler_of key)" and "key \<noteq> ''handlers''"
    and "store_and_sync key data handler_name s = (None, s1)"
  shows "py_getitem (get_data_store s1) key = Inr data
       \<and> loop s1 = loop s @ [(key, handler_name)]
       \<and> send_or_edit d key handler_name s1 = ([], Returned, s1)"
proof -
  obtain st where st: "DATA_STORE s = JObj st" and st1: "DATA_STORE s1 = JObj (AList.update key data st)"
    and l: "loop s1 = loop s @ [(key, handler_name)]"
    using store_and_sync_None[OF assms(3)] by blast
  have h: "map_of (AList.update key data st) ''handlers'' = map_of st ''handlers''"
    using assms(2) by (simp add: update_conv')
  have "routing_disabled (DATA_STORE s1) (handler_of key)"
    using assms(1) st st1 routing_disabled_cong[OF h, of "handler_of key"] by simp
  then have "send_or_edit d key handler_name s1 = ([], Returned, s1)"
    by (rule send_or_edit_disabled)
  then show ?thesis using st1 l by (simp add: get_data_store_def update_conv')
qed

text \<open>
  C4. For a key whose category is disabled, \<^verbatim>\<open>send_or_edit\<close> makes no call (no rendering,
  no channel lookup, no fetch, edit or send) and leaves the state as it was. The
  handlers do not look at the routing: the tail that every handler ends with stores
  the record under the key and schedules the sync call, and that sync call is then a
  no-op. For \<^verbatim>\<open>handle_push\<close> with a list of commits: when the handler returns, every commit
  has a key, in order, each scheduled for \<^verbatim>\<open>send_or_edit\<close>; \<^verbatim>\<open>DATA_STORE\<close> holds under each
  key the record of a commit of the payload with that key; \<^verbatim>\<open>MESSAGE_MAP\<close> is untouched;
  and each scheduled sync call makes no call.
\<close>

theorem disabled_category_no_calls:
  assumes "routing_disabled (DATA_STORE s) (handler_of key)"
  shows "send_or_edit d key handler_name s = ([], Returned, s)
       \<and> (\<forall>data s1. key \<noteq> ''handlers'' \<and> store_and_sync key data handler_name s = (None, s1) \<longrightarrow>
             py_getitem (get_data_store s1) key = Inr data
             \<and> loop s1 = loop s @ [(key, handler_name)]
             \<and> send_or_edit d key handler_name s1 = ([], Returned, s1))
       \<and> (handler_of key = ''push''
            \<and> py_get payload ''commits'' (JList []) = Inr (JList commits)
            \<and> py_get2 payload ''repository'' ''full_name'' (JStr ''unknown/unknown'') = Inr repo_full_name
            \<and> handle_push payload s = (None, s') \<longrightarrow>
            (\<exists>kds. list_all2 (\<lambda>c kd. push_entry repo_full_name c = Inr kd) commits kds
               \<and> loop s' = loop s @ map (\<lambda>kd. (fst kd, ''push'')) kds
               \<and> MESSAGE_MAP s' = MESSAGE_MAP s
               \<and> (\<forall>kd \<in> set kds.
                     (\<exists>data. py_getitem (get_data_store s') (fst kd) = Inr data \<and> (fst kd, data) \<in> set kds)
                     \<and> send_or_edit d (fst kd) ''push'' s' = ([], Returned, s'))))"
proof (intro conjI allI impI)
  show "send_or_edit d key handler_name s = ([], Returned, s)"
    using assms by (rule send_or_edit_disabled)
next
  fix data s1
  assume "key \<noteq> ''handlers'' \<and> store_and_sync key data handler_name s = (None, s1)"
  then show "py_getitem (get_data_store s1) key = Inr data"
    and "loop s1 = loop s @ [(key, handler_name)]"
    and "send_or_edit d key handler_name s1 = ([], Returned, s1)"
    using store_and_sync_disabled[OF assms, of data handler_name s1 d] by blast+
next
  assume h: "handler_of key = ''push''
       \<and> py_get payload ''commits'' (JList []) = Inr (JList commits)
       \<and> py_get2 payload ''repository'' ''full_name'' (JStr ''unknown/unknown'') = Inr repo_full_name
       \<and> handle_push payload s = (None, s')"
  then have dis: "routing_disabled (DATA_STORE s) ''push''" using assms by simp
  have c: "py_get payload ''commits'' (JList []) = Inr (JList commits)" using h by simp
  have r: "py_get2 payload ''repository'' ''full_name'' (JStr ''unknown/unknown'') = Inr repo_full_name"
    using h by simp
  have hp: "handle_push payload s = (None, s')" using h by simp
  show "\<exists>kds. list_all2 (\<lambda>c kd. push_entry repo_full_name c = Inr kd) commits kds
               \<and> loop s' = loop s @ map (\<lambda>kd. (fst kd, ''push'')) kds
               \<and> MESSAGE_MAP s' = MESSAGE_MAP s
               \<and> (\<forall>kd \<in> set kds.
                     (\<exists>data. py_getitem (get_data_store s') (fst kd) = Inr data \<and> (fst kd, data) \<in> set kds)
                     \<and> send_or_edit d (fst kd) ''push'' s' = ([], Returned, s'))"
    by (rule handle_push_disabled[OF dis c r hp])
qed

theorem disabled_category_no_calls_witness:
  "loop (snd (handle_push (JObj [(''commits'', JList [JObj [(''id'', JStr ''abc123''), (''message'', JStr ''fix''), (''url'', JStr ''u1'')], JObj [(''id'', JStr ''def456''), (''message'', JStr ''more'')]]), (''repository'', JObj [(''full_name'', JStr ''octo/repo'')])]) ((init Absent Writable)\<lparr>DATA_STORE := JObj [(''handlers'', JObj [(''push'', JObj [(''enabled'', JBool False), (''channel_id'', JInt 5)])])]\<rparr>))) = [(''push:abc123'', ''push''), (''push:def456'', ''push'')]
   \<and> py_getitem (get_data_store (snd (handle_push (JObj [(''commits'', JList [JObj [(''id'', JStr ''abc123''), (''message'', JStr ''fix''), (''url'', JStr ''u1'')], JObj [(''id'', JStr ''def456''), (''message'', JStr ''more'')]]), (''repository'', JObj [(''full_name'', JStr ''octo/repo'')])]) ((init Absent Writable)\<lparr>DATA_STORE := JObj [(''handlers'', JObj [(''push'', JObj [(''enabled'', JBool False), (''channel_id'', JInt 5)])])]\<rparr>)))) ''push:def456''
       = Inr (JObj [(''message'', JStr ''more''), (''url'', JStr ''#''), (''repo_full_name'', JStr ''octo/repo'')])
   \<and> send_or_edit \<lparr>DEFAULT_DISCORD_CHANNEL_ID = 1, build_embed = None, get_channel = True, fetch_message = None, edit = None, send = Inr 42\<rparr> ''push:abc123'' ''push'' (snd (handle_push (JObj [(''commits'', JList [JObj [(''id'', JStr ''abc123''), (''message'', JStr ''fix''), (''url'', JStr ''u1'')], JObj [(''id'', JStr ''def456''), (''message'', JStr ''more'')]]), (''repository'', JObj [(''full_name'', JStr ''octo/repo'')])]) ((init Absent Writable)\<lparr>DATA_STORE := JObj [(''handlers'', JObj [(''push'', JObj [(''enabled'', JBool False), (''channel_id'', JInt 5)])])]\<rparr>))) = ([], Returned, snd (handle_push (JObj [(''commits'', JList [JObj [(''id'', JStr ''abc123''), (''message'', JStr ''fix''), (''url'', JStr ''u1'')], JObj [(''id'', JStr ''def456''), (''message'', JStr ''more'')]]), (''repository'', JObj [(''full_name'', JStr ''octo/repo'')])]) ((init Absent Writable)\<lparr>DATA_STORE := JObj [(''handlers'', JObj [(''push'', JObj [(''enabled'', JBool False), (''channel_id'', JInt 5)])])]\<rparr>)))
   \<and> send_or_edit \<lparr>DEFAULT_DISCORD_CHANNEL_ID = 1, build_embed = None, get_channel = True, fetch_message = None, edit = None, send = Inr 42\<rparr> ''push:def456'' ''push'' (snd (handle_push (JObj [(''commits'', JList [JObj [(''id'', JStr ''abc123''), (''message'', JStr ''fix''), (''url'', JStr ''u1'')], JObj [(''id'', JStr ''def456''), (''message'', JStr ''more'')]]), (''repository'', JObj [(''full_name'', JStr ''octo/repo'')])]) ((init Absent Writable)\<lparr>DATA_STORE := JObj [(''handlers'', JObj [(''push'', JObj [(''enabled'', JBool False), (''channel_id'', JInt 5)])])]\<rparr>))) = ([], Returned, snd (handle_push (JObj [(''commits'', JList [JObj [(''id'', JStr ''abc123''), (''message'', JStr ''fix''), (''url'', JStr ''u1'')], JObj [(''id'', JStr ''def456''), (''message'', JStr ''more'')]]), (''repository'', JObj [(''full_name'', JStr ''octo/repo'')])]) ((init Absent Writable)\<lparr>DATA_STORE := JObj [(''handlers'', JObj [(''push'', JObj [(''enabled'', JBool False), (''channel_id'', JInt 5)])])]\<rparr>)))"
proof -
  let ?s = "(init Absent Writable)\<lparr>DATA_STORE := JObj [(''handlers'', JObj [(''push'', JObj [(''enabled'', JBool False), (''channel_id'', JInt 5)])])]\<rparr>"
  let ?p = "JObj [(''commits'', JList [JObj [(''id'', JStr ''abc123''), (''message'', JStr ''fix''), (''url'', JStr ''u1'')], JObj [(''id'', JStr ''def456''), (''message'', JStr ''more'')]]), (''repository'', JObj [(''full_name'', JStr ''octo/repo'')])]"
  let ?d = "\<lparr>DEFAULT_DISCORD_CHANNEL_ID = 1, build_embed = None, get_channel = True, fetch_message = None, edit = None, send = Inr 42\<rparr>"
  let ?c1 = "JObj [(''id'', JStr ''abc123''), (''message'', JStr ''fix''), (''url'', JStr ''u1'')]"
  let ?c2 = "JObj [(''id'', JStr ''def456''), (''message'', JStr ''more'')]"
  let ?s' = "snd (handle_push ?p ?s)"
  have a: "routing_disabled (DATA_STORE ?s) (handler_of ''push:abc123'')"
    by (simp add: routing_disabled_def handler_of_def py_get2_def and_then_def)
  have b: "handler_of ''push:abc123'' = ''push''" by (simp add: handler_of_def)
  have c: "py_get ?p ''commits'' (JList []) = Inr (JList [?c1, ?c2])" by simp
  have e: "py_get2 ?p ''repository'' ''full_name'' (JStr ''unknown/unknown'') = Inr (JStr ''octo/repo'')"
    by (simp add: py_get2_def and_then_def)
  have f: "handle_push ?p ?s = (None, ?s')"
    by (simp add: handle_push_def py_get2_def and_then_def push_entry_def py_str_def
          store_and_sync_def update_data_store_def save_data_def init_def)
  from disabled_category_no_calls[OF a, of ?d "''push''" ?p "[?c1, ?c2]" "JStr ''octo/repo''" ?s'] b c e f
  obtain kds where k: "list_all2 (\<lambda>c kd. push_entry (JStr ''octo/repo'') c = Inr kd) [?c1, ?c2] kds"
    and l: "loop ?s' = loop ?s @ map (\<lambda>kd. (fst kd, ''push'')) kds"
    and r: "\<forall>kd \<in> set kds.
              (\<exists>data. py_getitem (get_data_store ?s') (fst kd) = Inr data \<and> (fst kd, data) \<in> set kds)
              \<and> send_or_edit ?d (fst kd) ''push'' ?s' = ([], Returned, ?s')"
    by blast
  have kds: "kds = [(''push:abc123'', JObj [(''message'', JStr ''fix''), (''url'', JStr ''u1''), (''repo_full_name'', JStr ''octo/repo'')]),
                    (''push:def456'', JObj [(''message'', JStr ''more''), (''url'', JStr ''#''), (''repo_full_name'', JStr ''octo/repo'')])]"
    using k by (auto simp: list_all2_Cons1 push_entry_def and_then_def py_str_def)
  show ?thesis using l r unfolding kds by (auto simp: init_def)
qed

section \<open>The handlers\<close>

text \<open>The tail of a handler when the store is a dictionary and the file can be written.\<close>

lemma store_and_sync_writable:
  assumes "DATA_STORE s = JObj st" and "media s = Writable"
  shows "fst (store_and_sync key data handler_name s) = None
       \<and> DATA_STORE (snd (store_and_sync key data handler_name s)) = JObj (AList.update key data st)
       \<and> MESSAGE_MAP (snd (store_and_sync key data handler_name s)) = MESSAGE_MAP s
       \<and> loop (snd (store_and_sync key data handler_name s)) = loop s @ [(key, handler_name)]"
  using assms by (simp add: store_and_sync_def update_data_store_def save_data_def)

lemma workflow_run_entry_dict:
  assumes "py_get (JObj w) ''repository'' (JObj []) = Inr (JObj r)"
  shows "\<exists>data. workflow_run_entry payload (JObj w)
           = Inr (''workflow_run:'' @ py_str (case map_of w ''id'' of None \<Rightarrow> JStr ''unknown'' | Some v \<Rightarrow> v), data)"
  using assms by (simp add: workflow_run_entry_def and_then_def py_get2_def)

text \<open>
  C6. A \<^verbatim>\<open>workflow_run\<close> event (a payload that is a dictionary) whose \<^verbatim>\<open>action\<close> is missing
  or is anything but \<^verbatim>\<open>"completed"\<close>: the handler returns with the state as it was, so
  nothing is stored and nothing is scheduled. With \<^verbatim>\<open>action\<close> equal to \<^verbatim>\<open>"completed"\<close>, a
  \<^verbatim>\<open>workflow_run\<close> object (or none) whose \<^verbatim>\<open>repository\<close> is an object (or missing), a store
  that is a dictionary and a file that can be written: the handler returns, the record
  is stored under \<^verbatim>\<open>workflow_run:<id>\<close> (\<^verbatim>\<open>str\<close> of the run's \<^verbatim>\<open>id\<close>, \<^verbatim>\<open>unknown\<close> without
  one), and one sync call for that key is scheduled.
\<close>

theorem workflow_run_only_completed:
  "(map_of p ''action'' \<noteq> Some (JStr ''completed'') \<longrightarrow>
      handle_workflow_run (JObj p) s = (None, s))
   \<and> (map_of p ''action'' = Some (JStr ''completed'')
        \<and> py_get (JObj p) ''workflow_run'' (JObj []) = Inr (JObj w)
        \<and> py_get (JObj w) ''repository'' (JObj []) = Inr (JObj r)
        \<and> DATA_STORE s = JObj st \<and> media s = Writable \<longrightarrow>
        fst (handle_workflow_run (JObj p) s) = None
        \<and> (\<exists>data. workflow_run_entry (JObj p) (JObj w)
                     = Inr (''workflow_run:'' @ py_str (case map_of w ''id'' of None \<Rightarrow> JStr ''unknown'' | Some v \<Rightarrow> v), data)
                  \<and> py_getitem (get_data_store (snd (handle_workflow_run (JObj p) s)))
                       (''workflow_run:'' @ py_str (case map_of w ''id'' of None \<Rightarrow> JStr ''unknown'' | Some v \<Rightarrow> v))
                     = Inr data)
        \<and> loop (snd (handle_workflow_run (JObj p) s))
            = loop s @ [(''workflow_run:'' @ py_str (case map_of w ''id'' of None \<Rightarrow> JStr ''unknown'' | Some v \<Rightarrow> v),
                         ''workflow_run'')])"
proof (intro conjI impI)
  assume "map_of p ''action'' \<noteq> Some (JStr ''completed'')"
  then show "handle_workflow_run (JObj p) s = (None, s)"
    by (auto simp: handle_workflow_run_def and_then_def split: option.splits)
next
  let ?key = "''workflow_run:'' @ py_str (case map_of w ''id'' of None \<Rightarrow> JStr ''unknown'' | Some v \<Rightarrow> v)"
  assume h: "map_of p ''action'' = Some (JStr ''completed'')
        \<and> py_get (JObj p) ''workflow_run'' (JObj []) = Inr (JObj w)
        \<and> py_get (JObj w) ''repository'' (JObj []) = Inr (JObj r)
        \<and> DATA_STORE s = JObj st \<and> media s = Writable"
  then obtain data where e: "workflow_run_entry (JObj p) (JObj w) = Inr (?key, data)"
    using workflow_run_entry_dict[of w r "JObj p"] by blast
  have hw: "handle_workflow_run (JObj p) s = store_and_sync ?key data ''workflow_run'' s"
    using h e by (simp add: handle_workflow_run_def and_then_def)
  note ss = store_and_sync_writable[of s st ?key data "''workflow_run''"]
  show "fst (handle_workflow_run (JObj p) s) = None" using hw ss h by simp
  show "loop (snd (handle_workflow_run (JObj p) s)) = loop s @ [(?key, ''workflow_run'')]"
    using hw ss h by simp
  have "py_getitem (get_data_store (snd (handle_workflow_run (JObj p) s))) ?key = Inr data"
    using hw ss h by (simp add: get_data_store_def update_conv')
  then show "\<exists>data. workflow_run_entry (JObj p) (JObj w) = Inr (?key, data)
                  \<and> py_getitem (get_data_store (snd (handle_workflow_run (JObj p) s))) ?key = Inr data"
    using e by blast
qed

theorem workflow_run_only_completed_witness:
  "handle_workflow_run (JObj [(''action'', JStr ''in_progress''), (''workflow_run'', JObj [(''id'', JInt 99), (''status'', JStr ''in_progress'')])]) (init Absent Writable) = (None, init Absent Writable)
   \<and> fst (handle_workflow_run (JObj [(''action'', JStr ''completed''), (''workflow_run'', JObj [(''id'', JInt 99), (''status'', JStr ''completed''), (''conclusion'', JStr ''success'')])]) (init Absent Writable)) = None
   \<and> loop (snd (handle_workflow_run (JObj [(''action'', JStr ''completed''), (''workflow_run'', JObj [(''id'', JInt 99), (''status'', JStr ''completed''), (''conclusion'', JStr ''success'')])]) (init Absent Writable))) = [(''workflow_run:99'', ''workflow_run'')]
   \<and> (\<exists>data. py_getitem (get_data_store (snd (handle_workflow_run (JObj [(''action'', JStr ''completed''), (''workflow_run'', JObj [(''id'', JInt 99), (''status'', JStr ''completed''), (''conclusion'', JStr ''success'')])]) (init Absent Writable)))) ''workflow_run:99'' = Inr data)"
proof -
  let ?s = "init Absent Writable"
  have k: "py_str (JInt 99) = ''99''"
    by (simp add: py_str_def str_int_def str_nat.simps digit_char_def)
  have a: "map_of [(''action'', JStr ''in_progress''), (''workflow_run'', JObj [(''id'', JInt 99), (''status'', JStr ''in_progress'')])] ''action''
           \<noteq> Some (JStr ''completed'')" by simp
  have b: "map_of [(''action'', JStr ''completed''), (''workflow_run'', JObj [(''id'', JInt 99), (''status'', JStr ''completed''), (''conclusion'', JStr ''success'')])] ''action'' = Some (JStr ''completed'')
        \<and> py_get (JObj [(''action'', JStr ''completed''), (''workflow_run'', JObj [(''id'', JInt 99), (''status'', JStr ''completed''), (''conclusion'', JStr ''success'')])]) ''workflow_run'' (JObj []) = Inr (JObj [(''id'', JInt 99), (''status'', JStr ''completed''), (''conclusion'', JStr ''success'')])
        \<and> py_get (JObj [(''id'', JInt 99), (''status'', JStr ''completed''), (''conclusion'', JStr ''success'')]) ''repository'' (JObj []) = Inr (JObj [])
        \<and> DATA_STORE ?s = JObj [] \<and> media ?s = Writable"
    by (simp add: init_def)
  from workflow_run_only_completed[where p = "[(''action'', JStr ''in_progress''), (''workflow_run'', JObj [(''id'', JInt 99), (''status'', JStr ''in_progress'')])]"
         and s = ?s] a
  have 1: "handle_workflow_run (JObj [(''action'', JStr ''in_progress''), (''workflow_run'', JObj [(''id'', JInt 99), (''status'', JStr ''in_progress'')])]) ?s = (None, ?s)" by blast
  from workflow_run_only_completed[where p = "[(''action'', JStr ''completed''), (''workflow_run'', JObj [(''id'', JInt 99), (''status'', JStr ''completed''), (''conclusion'', JStr ''success'')])]"
         and s = ?s and w = "[(''id'', JInt 99), (''status'', JStr ''completed''), (''conclusion'', JStr ''success'')]" and r = "[]" and st = "[]"] b
  have 2: "fst (handle_workflow_run (JObj [(''action'', JStr ''completed''), (''workflow_run'', JObj [(''id'', JInt 99), (''status'', JStr ''completed''), (''conclusion'', JStr ''success'')])]) ?s) = None
        \<and> (\<exists>data. workflow_run_entry (JObj [(''action'', JStr ''completed''), (''workflow_run'', JObj [(''id'', JInt 99), (''status'', JStr ''completed''), (''conclusion'', JStr ''success'')])]) (JObj [(''id'', JInt 99), (''status'', JStr ''completed''), (''conclusion'', JStr ''success'')])
                     = Inr (''workflow_run:'' @ py_str (case map_of [(''id'', JInt 99), (''status'', JStr ''completed''), (''conclusion'', JStr ''success'')] ''id'' of None \<Rightarrow> JStr ''unknown'' | Some v \<Rightarrow> v), data)
                  \<and> py_getitem (get_data_store (snd (handle_workflow_run (JObj [(''action'', JStr ''completed''), (''workflow_run'', JObj [(''id'', JInt 99), (''status'', JStr ''completed''), (''conclusion'', JStr ''success'')])]) ?s)))
                       (''workflow_run:'' @ py_str (case map_of [(''id'', JInt 99), (''status'', JStr ''completed''), (''conclusion'', JStr ''success'')] ''id'' of None \<Rightarrow> JStr ''unknown'' | Some v \<Rightarrow> v))
                     = Inr data)
        \<and> loop (snd (handle_workflow_run (JObj [(''action'', JStr ''completed''), (''workflow_run'', JObj [(''id'', JInt 99), (''status'', JStr ''completed''), (''conclusion'', JStr ''success'')])]) ?s))
            = loop ?s @ [(''workflow_run:'' @ py_str (case map_of [(''id'', JInt 99), (''status'', JStr ''completed''), (''conclusion'', JStr ''success'')] ''id'' of None \<Rightarrow> JStr ''unknown'' | Some v \<Rightarrow> v),
                         ''workflow_run'')]"
    by blast
  have l: "loop ?s = []" by (simp add: init_def)
  from 1 2 show ?thesis using k l by auto
qed





































































section \<open>Keys\<close>

text \<open>
  The decimal form of an integer determines the integer and holds no colon; a string
  splits in one way only at the first colon.
\<close>

lemma digit_char_inj:
  assumes "a < 10" and "b < 10" and "digit_char a = digit_char b"
  shows "a = b"
proof -
  have a: "a \<in> {0, 1, 2, 3, 4, 5, 6, 7, 8, 9}" using assms(1) by auto
  have b: "b \<in> {0, 1, 2, 3, 4, 5, 6, 7, 8, 9}" using assms(2) by auto
  show ?thesis using a b assms(3) by (auto simp: digit_char_def)
qed

lemma digit_char_plain:
  assumes "a < 10"
  shows "digit_char a \<noteq> CHR '':'' \<and> digit_char a \<noteq> CHR ''-''"
proof -
  have a: "a \<in> {0, 1, 2, 3, 4, 5, 6, 7, 8, 9}" using assms(1) by auto
  show ?thesis using a by (auto simp: digit_char_def)
qed

lemma str_nat_small: "n < 10 \<Longrightarrow> str_nat n = [digit_char n]"
  by (simp add: str_nat.simps)

lemma str_nat_big: "\<not> n < 10 \<Longrightarrow> str_nat n = str_nat (n div 10) @ [digit_char (n mod 10)]"
  by (subst str_nat.simps) simp

lemma str_nat_nonempty: "str_nat n \<noteq> []"
  by (cases "n < 10") (simp_all add: str_nat_small str_nat_big)

lemma str_nat_plain: "c \<in> set (str_nat n) \<Longrightarrow> c \<noteq> CHR '':'' \<and> c \<noteq> CHR ''-''"
proof (induction n rule: str_nat.induct)
  case (1 n)
  show ?case
  proof (cases "n < 10")
    case True
    then show ?thesis using "1.prems" digit_char_plain[of n] by (auto simp: str_nat_small)
  next
    case False
    have "n mod 10 < 10" by simp
    then show ?thesis
      using False "1.prems" "1.IH" digit_char_plain[of "n mod 10"]
      by (auto simp: str_nat_big)
  qed
qed

lemma str_nat_inj: "str_nat n = str_nat m \<Longrightarrow> n = m"
proof (induction n arbitrary: m rule: str_nat.induct)
  case (1 n)
  show ?case
  proof (cases "n < 10")
    case True
    note n = True
    show ?thesis
    proof (cases "m < 10")
      case True
      then show ?thesis using n "1.prems" digit_char_inj by (simp add: str_nat_small)
    next
      case False
      then show ?thesis using n "1.prems" str_nat_nonempty[of "m div 10"]
        by (simp add: str_nat_small str_nat_big)
    qed
  next
    case False
    note n = False
    show ?thesis
    proof (cases "m < 10")
      case True
      then show ?thesis using n "1.prems" str_nat_nonempty[of "n div 10"]
        by (simp add: str_nat_small str_nat_big)
    next
      case False
      have e: "str_nat (n div 10) @ [digit_char (n mod 10)] = str_nat (m div 10) @ [digit_char (m mod 10)]"
        using n False "1.prems" by (simp add: str_nat_big)
      then have "str_nat (n div 10) = str_nat (m div 10)" and d: "digit_char (n mod 10) = digit_char (m mod 10)"
        by simp_all
      then have q: "n div 10 = m div 10" using "1.IH"[OF n] by blast
      have r: "n mod 10 = m mod 10" using d digit_char_inj[of "n mod 10" "m mod 10"] by simp
      show ?thesis using q r by (metis div_mult_mod_eq)
    qed
  qed
qed

lemma str_int_plain: "CHR '':'' \<notin> set (str_int i)"
  using str_nat_plain by (auto simp: str_int_def)

lemma str_int_inj: "str_int i = str_int j \<Longrightarrow> i = j"
proof -
  assume e: "str_int i = str_int j"
  have hd_plain: "\<And>n. hd (str_nat n) \<noteq> CHR ''-''"
    using str_nat_plain str_nat_nonempty by (metis hd_in_set)
  show ?thesis
  proof (cases "i < 0")
    case True
    note i = True
    show ?thesis
    proof (cases "j < 0")
      case True
      then have "str_nat (nat (- i)) = str_nat (nat (- j))" using e i by (simp add: str_int_def)
      then have "nat (- i) = nat (- j)" by (rule str_nat_inj)
      then show ?thesis using i True by simp
    next
      case False
      then have "CHR ''-'' # str_nat (nat (- i)) = str_nat (nat j)" using e i by (simp add: str_int_def)
      then have "hd (str_nat (nat j)) = CHR ''-''" by (metis list.sel(1))
      then show ?thesis using hd_plain by blast
    qed
  next
    case False
    note i = False
    show ?thesis
    proof (cases "j < 0")
      case True
      then have "str_nat (nat i) = CHR ''-'' # str_nat (nat (- j))" using e i by (simp add: str_int_def)
      then have "hd (str_nat (nat i)) = CHR ''-''" by (metis list.sel(1))
      then show ?thesis using hd_plain by blast
    next
      case False
      then have "str_nat (nat i) = str_nat (nat j)" using e i by (simp add: str_int_def)
      then have "nat i = nat j" by (rule str_nat_inj)
      then show ?thesis using i False by simp
    qed
  qed
qed

lemma split_at_colon:
  assumes "CHR '':'' \<notin> set a" and "CHR '':'' \<notin> set a'"
    and "a @ CHR '':'' # b = a' @ CHR '':'' # b'"
  shows "a = a' \<and> b = b'"
  using assms
proof (induction a arbitrary: a')
  case Nil
  then show ?case by (cases a') auto
next
  case (Cons x a)
  then show ?case by (cases a') auto
qed

end
